theory Spec2Isabelle
  imports Complex_Main
begin

section \<open>Data model of \<open>vulkpy/vkarray.py\<close>\<close>

text \<open>
  The module has two classes: \<open>GPU\<close> (the device context with its memoised
  \<open>_createOp\<close>) and \<open>Array\<close> (shape, device buffer, pending job).  Python objects
  are mutable and shared, so Arrays live in a store: an Array reference is an index
  into \<open>heap\<close>, and every method takes the state and returns the new one together
  with its result.  An exception is the result \<open>Inl e\<close>; the state returned with it
  is the state at the moment of the raise.

  What the device computes is outside the model.  The state carries a trace of what
  the host asked of the backend (compilations, submissions, blocking waits, reads
  and writes of the host-visible view), in the order it asked.
\<close>

datatype error = ValueError | IndexError

text \<open>
  Modelled from the spec: the parameter packings \<open>_vkarray.VectorParams\<close>,
  \<open>VectorScalarParams\<close>, \<open>VectorScalar2Params\<close> and \<open>MatMulParams\<close> are classes of
  the compiled extension, which is not part of the Python sources.  The spec calls
  them value types that are passed by value and are part of the cache key, so they
  are a datatype compared by value.  A Python scalar is carried as a \<open>real\<close>; no
  arithmetic is ever done on it here.
\<close>

datatype params =
    VectorParams nat
  | VectorScalarParams nat real
  | VectorScalar2Params nat real real
  | MatMulParams nat nat nat

datatype datashape = DataShape nat nat nat

text \<open>
  Modelled from the spec: a \<open>_vkarray.Buffer\<close> is device memory of a fixed element
  count (\<open>size()\<close>), identified by \<open>buf_id\<close>.
\<close>

datatype buffer = Buffer (buf_id: nat) (buf_size: nat)

text \<open>The arguments of \<open>GPU._createOp\<close> after \<open>self\<close>: they are the key of \<open>functools.cache\<close>.\<close>

type_synonym opkey = "string \<times> nat \<times> params \<times> nat \<times> nat \<times> nat"

text \<open>
  A job is identified by a number; its semaphore (\<open>job.getSemaphore()\<close>) is identified
  with the job.  \<open>Submit\<close> records one call of \<open>GPU._submit\<close>: the operation handle it
  resolved, its arguments, and the job the backend returned.
\<close>

datatype event =
    Compile opkey nat
  | Submit (sub_op: nat) (sub_spv: string) (sub_local: "nat \<times> nat \<times> nat")
      (sub_buffers: "buffer list") (sub_shape: datashape) (sub_params: params)
      (sub_semaphores: "nat list") (sub_job: nat)
  | Wait nat
  | HostRead buffer "int option"
  | HostWrite buffer int real

record array =
  shape :: "nat list"
  buffer :: buffer
  job :: "nat option"

record state =
  cache :: "opkey \<rightharpoonup> nat"
  next_op :: nat
  next_job :: nat
  next_buf :: nat
  heap :: "array list"
  trace :: "event list"

text \<open>A scalar or an Array argument (\<open>isinstance(other, Array)\<close>).\<close>

datatype operand = Arr nat | Scalar real

definition arr :: "state \<Rightarrow> nat \<Rightarrow> array" where
  "arr s r = heap s ! r"

definition bindE ::
  "(state \<Rightarrow> (error + 'a) \<times> state) \<Rightarrow> ('a \<Rightarrow> state \<Rightarrow> (error + 'b) \<times> state)
    \<Rightarrow> state \<Rightarrow> (error + 'b) \<times> state" where
  "bindE m f s = (case m s of (Inl e, s') \<Rightarrow> (Inl e, s') | (Inr x, s') \<Rightarrow> f x s')"

subsection \<open>Kernel files\<close>

text \<open>
  \<open>shader_dir\<close> is the directory \<open>shader\<close> beside the module; the part of the path
  before it depends on where the package is installed and is left out.
\<close>

definition shader_dir :: string where
  "shader_dir = ''shader''"

definition path_join :: "string \<Rightarrow> string \<Rightarrow> string" where
  "path_join d f = d @ ''/'' @ f"

definition k_add :: string where
  "k_add = path_join shader_dir ''add.spv''"

definition k_sub :: string where
  "k_sub = path_join shader_dir ''sub.spv''"

definition k_mul :: string where
  "k_mul = path_join shader_dir ''mul.spv''"

definition k_div :: string where
  "k_div = path_join shader_dir ''div.spv''"

definition k_iadd :: string where
  "k_iadd = path_join shader_dir ''iadd.spv''"

definition k_isub :: string where
  "k_isub = path_join shader_dir ''isub.spv''"

definition k_imul :: string where
  "k_imul = path_join shader_dir ''imul.spv''"

definition k_idiv :: string where
  "k_idiv = path_join shader_dir ''idiv.spv''"

definition k_add_scalar :: string where
  "k_add_scalar = path_join shader_dir ''add_scalar.spv''"

definition k_sub_scalar :: string where
  "k_sub_scalar = path_join shader_dir ''sub_scalar.spv''"

definition k_mul_scalar :: string where
  "k_mul_scalar = path_join shader_dir ''mul_scalar.spv''"

definition k_div_scalar :: string where
  "k_div_scalar = path_join shader_dir ''div_scalar.spv''"

definition k_iadd_scalar :: string where
  "k_iadd_scalar = path_join shader_dir ''iadd_scalar.spv''"

definition k_isub_scalar :: string where
  "k_isub_scalar = path_join shader_dir ''isub_scalar.spv''"

definition k_imul_scalar :: string where
  "k_imul_scalar = path_join shader_dir ''imul_scalar.spv''"

definition k_idiv_scalar :: string where
  "k_idiv_scalar = path_join shader_dir ''idiv_scalar.spv''"

definition k_rsub_scalar :: string where
  "k_rsub_scalar = path_join shader_dir ''rsub_scalar.spv''"

definition k_rdiv_scalar :: string where
  "k_rdiv_scalar = path_join shader_dir ''rdiv_scalar.spv''"

definition k_matmul :: string where
  "k_matmul = path_join shader_dir ''matmul.spv''"

definition k_max :: string where
  "k_max = path_join shader_dir ''max.spv''"

definition k_min :: string where
  "k_min = path_join shader_dir ''min.spv''"

definition k_imax :: string where
  "k_imax = path_join shader_dir ''imax.spv''"

definition k_imin :: string where
  "k_imin = path_join shader_dir ''imin.spv''"

definition k_max_scalar :: string where
  "k_max_scalar = path_join shader_dir ''max_scalar.spv''"

definition k_min_scalar :: string where
  "k_min_scalar = path_join shader_dir ''min_scalar.spv''"

definition k_imax_scalar :: string where
  "k_imax_scalar = path_join shader_dir ''imax_scalar.spv''"

definition k_imin_scalar :: string where
  "k_imin_scalar = path_join shader_dir ''imin_scalar.spv''"

definition k_abs :: string where
  "k_abs = path_join shader_dir ''abs.spv''"

definition k_sign :: string where
  "k_sign = path_join shader_dir ''sign.spv''"

definition k_iabs :: string where
  "k_iabs = path_join shader_dir ''iabs.spv''"

definition k_isign :: string where
  "k_isign = path_join shader_dir ''isign.spv''"

definition k_sin :: string where
  "k_sin = path_join shader_dir ''sin.spv''"

definition k_cos :: string where
  "k_cos = path_join shader_dir ''cos.spv''"

definition k_tan :: string where
  "k_tan = path_join shader_dir ''tan.spv''"

definition k_isin :: string where
  "k_isin = path_join shader_dir ''isin.spv''"

definition k_icos :: string where
  "k_icos = path_join shader_dir ''icos.spv''"

definition k_itan :: string where
  "k_itan = path_join shader_dir ''itan.spv''"

definition k_asin :: string where
  "k_asin = path_join shader_dir ''asin.spv''"

definition k_acos :: string where
  "k_acos = path_join shader_dir ''acos.spv''"

definition k_atan :: string where
  "k_atan = path_join shader_dir ''atan.spv''"

definition k_iasin :: string where
  "k_iasin = path_join shader_dir ''iasin.spv''"

definition k_iacos :: string where
  "k_iacos = path_join shader_dir ''iacos.spv''"

definition k_iatan :: string where
  "k_iatan = path_join shader_dir ''iatan.spv''"

definition k_sinh :: string where
  "k_sinh = path_join shader_dir ''sinh.spv''"

definition k_cosh :: string where
  "k_cosh = path_join shader_dir ''cosh.spv''"

definition k_tanh :: string where
  "k_tanh = path_join shader_dir ''tanh.spv''"

definition k_isinh :: string where
  "k_isinh = path_join shader_dir ''isinh.spv''"

definition k_icosh :: string where
  "k_icosh = path_join shader_dir ''icosh.spv''"

definition k_itanh :: string where
  "k_itanh = path_join shader_dir ''itanh.spv''"

definition k_asinh :: string where
  "k_asinh = path_join shader_dir ''asinh.spv''"

definition k_acosh :: string where
  "k_acosh = path_join shader_dir ''acosh.spv''"

definition k_atanh :: string where
  "k_atanh = path_join shader_dir ''atanh.spv''"

definition k_iasinh :: string where
  "k_iasinh = path_join shader_dir ''iasinh.spv''"

definition k_iacosh :: string where
  "k_iacosh = path_join shader_dir ''iacosh.spv''"

definition k_iatanh :: string where
  "k_iatanh = path_join shader_dir ''iatanh.spv''"

definition k_exp :: string where
  "k_exp = path_join shader_dir ''exp.spv''"

definition k_log :: string where
  "k_log = path_join shader_dir ''log.spv''"

definition k_iexp :: string where
  "k_iexp = path_join shader_dir ''iexp.spv''"

definition k_ilog :: string where
  "k_ilog = path_join shader_dir ''ilog.spv''"

definition k_exp2 :: string where
  "k_exp2 = path_join shader_dir ''exp2.spv''"

definition k_log2 :: string where
  "k_log2 = path_join shader_dir ''log2.spv''"

definition k_iexp2 :: string where
  "k_iexp2 = path_join shader_dir ''iexp2.spv''"

definition k_ilog2 :: string where
  "k_ilog2 = path_join shader_dir ''ilog2.spv''"

definition k_sqrt :: string where
  "k_sqrt = path_join shader_dir ''sqrt.spv''"

definition k_invsqrt :: string where
  "k_invsqrt = path_join shader_dir ''invsqrt.spv''"

definition k_isqrt :: string where
  "k_isqrt = path_join shader_dir ''isqrt.spv''"

definition k_iinvsqrt :: string where
  "k_iinvsqrt = path_join shader_dir ''iinvsqrt.spv''"

definition k_pow :: string where
  "k_pow = path_join shader_dir ''pow.spv''"

definition k_ipow :: string where
  "k_ipow = path_join shader_dir ''ipow.spv''"

definition k_pow_scalar :: string where
  "k_pow_scalar = path_join shader_dir ''pow_scalar.spv''"

definition k_ipow_scalar :: string where
  "k_ipow_scalar = path_join shader_dir ''ipow_scalar.spv''"

definition k_rpow_scalar :: string where
  "k_rpow_scalar = path_join shader_dir ''rpow_scalar.spv''"

definition k_clamp :: string where
  "k_clamp = path_join shader_dir ''clamp.spv''"

definition k_iclamp :: string where
  "k_iclamp = path_join shader_dir ''iclamp.spv''"

definition k_clamp_sv :: string where
  "k_clamp_sv = path_join shader_dir ''clamp_sv.spv''"

definition k_iclamp_sv :: string where
  "k_iclamp_sv = path_join shader_dir ''iclamp_sv.spv''"

definition k_clamp_vs :: string where
  "k_clamp_vs = path_join shader_dir ''clamp_vs.spv''"

definition k_iclamp_vs :: string where
  "k_iclamp_vs = path_join shader_dir ''iclamp_vs.spv''"

definition k_clamp_ss :: string where
  "k_clamp_ss = path_join shader_dir ''clamp_ss.spv''"

definition k_iclamp_ss :: string where
  "k_iclamp_ss = path_join shader_dir ''iclamp_ss.spv''"

section \<open>class \<open>GPU\<close>\<close>

text \<open>
  \<open>GPU._createOp\<close> is wrapped in \<open>functools.cache\<close>: a call whose arguments are already
  a key of the cache returns the stored handle and does not run the body; otherwise
  the body asks the backend for a new operation and the result is stored.
  Modelled from the spec: the backend's \<open>createOp\<close> is not part of the Python
  sources; it returns a new compiled-operation handle on every call and has no
  error conditions.
\<close>

definition createOp :: "opkey \<Rightarrow> state \<Rightarrow> nat \<times> state" where
  "createOp k s =
     (case cache s k of
        Some h \<Rightarrow> (h, s)
      | None \<Rightarrow>
          (next_op s,
           s\<lparr>cache := (cache s)(k \<mapsto> next_op s),
             next_op := Suc (next_op s),
             trace := trace s @ [Compile k (next_op s)]\<rparr>))"

text \<open>
  \<open>GPU._submit\<close>.  \<open>buffers[0].size()\<close> raises IndexError on an empty list, after the
  operation was resolved.  Modelled from the spec: the backend's \<open>submit\<close> returns a
  new job at once.
\<close>

definition submit ::
  "string \<Rightarrow> nat \<Rightarrow> nat \<Rightarrow> nat \<Rightarrow> buffer list \<Rightarrow> datashape \<Rightarrow> params \<Rightarrow> nat list
    \<Rightarrow> state \<Rightarrow> (error + nat) \<times> state" where
  "submit spv local_size_x local_size_y local_size_z buffers shp ps semaphores s =
     (case createOp (spv, length buffers, ps, local_size_x, local_size_y, local_size_z) s of
        (h, s1) \<Rightarrow>
          if buffers = [] then (Inl IndexError, s1)
          else (Inr (next_job s1),
                s1\<lparr>next_job := Suc (next_job s1),
                   trace := trace s1 @
                     [Submit h spv (local_size_x, local_size_y, local_size_z)
                        buffers shp ps semaphores (next_job s1)]\<rparr>))"

text \<open>The state a call of \<open>GPU._submit\<close> with at least one buffer leaves behind.\<close>

definition submitted ::
  "string \<Rightarrow> nat \<Rightarrow> nat \<Rightarrow> nat \<Rightarrow> buffer list \<Rightarrow> datashape \<Rightarrow> params \<Rightarrow> nat list
    \<Rightarrow> state \<Rightarrow> state" where
  "submitted spv local_size_x local_size_y local_size_z buffers shp ps semaphores s =
     snd (submit spv local_size_x local_size_y local_size_z buffers shp ps semaphores s)"

section \<open>class \<open>Array\<close>\<close>

text \<open>
  Names: a method \<open>m\<close> of \<open>Array\<close> is \<open>array_m\<close> here and an operator method
  \<open>__op__\<close> is \<open>array_op\<close>; the helper methods keep their names without the leading
  underscore; the kernel path constant \<open>_add\<close> is \<open>k_add\<close>, and so on.  A method that
  returns an Array returns its reference, \<open>Some r\<close>; \<open>None\<close> is Python's \<open>None\<close>.
\<close>

text \<open>
  \<open>Array.__init__\<close>.  \<open>data\<close> is the shape of the host data given (its values are
  copied to the buffer and are not followed here), \<open>shape\<close> the shape asked for.
  The new Array is stored at the end of the heap and its reference returned.
\<close>

definition Array_init :: "nat list option \<Rightarrow> nat list option \<Rightarrow> state \<Rightarrow> (error + nat) \<times> state" where
  "Array_init data shp s =
     (case (case data of Some d \<Rightarrow> Some d | None \<Rightarrow> shp) of
        None \<Rightarrow> (Inl ValueError, s)
      | Some sh \<Rightarrow>
          (Inr (length (heap s)),
           s\<lparr>next_buf := Suc (next_buf s),
             heap := heap s @
               [\<lparr>shape = sh, buffer = Buffer (next_buf s) (prod_list sh), job = None\<rparr>]\<rparr>))"

definition check_shape :: "nat \<Rightarrow> nat \<Rightarrow> state \<Rightarrow> (error + unit) \<times> state" where
  "check_shape self other s =
     (if shape (arr s self) \<noteq> shape (arr s other) then (Inl ValueError, s) else (Inr (), s))"

text \<open>\<open>[b.job.getSemaphore() for b in buffers if b.job is not None]\<close>\<close>

definition semaphores_of :: "nat list \<Rightarrow> state \<Rightarrow> nat list" where
  "semaphores_of buffers s =
     concat (map (\<lambda>b. case job (arr s b) of None \<Rightarrow> [] | Some j \<Rightarrow> [j]) buffers)"

text \<open>\<open>self.job = ...\<close> on the Array at reference \<open>r\<close>.\<close>

definition set_job :: "nat \<Rightarrow> nat option \<Rightarrow> state \<Rightarrow> state" where
  "set_job r j s = s\<lparr>heap := (heap s)[r := (arr s r)\<lparr>job := j\<rparr>]\<rparr>"

definition opVec :: "string \<Rightarrow> nat \<Rightarrow> nat list \<Rightarrow> state \<Rightarrow> (error + nat) \<times> state" where
  "opVec spv self buffers s =
     (let size = buf_size (buffer (arr s self))
      in submit spv 64 1 1 (map (\<lambda>b. buffer (arr s b)) buffers)
           (DataShape size 1 1) (VectorParams size) (semaphores_of buffers s) s)"

definition opVec3 :: "string \<Rightarrow> nat \<Rightarrow> nat \<Rightarrow> state \<Rightarrow> (error + nat option) \<times> state" where
  "opVec3 spv self other =
     bindE (check_shape self other) (\<lambda>_.
     bindE (\<lambda>s. Array_init None (Some (shape (arr s self))) s) (\<lambda>ret.
     bindE (opVec spv self [self, other, ret]) (\<lambda>j s.
       (Inr (Some ret), set_job ret (Some j) s))))"

definition opVec2 :: "string \<Rightarrow> nat \<Rightarrow> nat option \<Rightarrow> state \<Rightarrow> (error + nat option) \<times> state" where
  "opVec2 spv self other =
     (case other of
        Some other' \<Rightarrow>
          bindE (check_shape self other') (\<lambda>_.
          bindE (opVec spv self [self, other']) (\<lambda>j s.
            (Inr None, set_job self (Some j) s)))
      | None \<Rightarrow>
          bindE (\<lambda>s. Array_init None (Some (shape (arr s self))) s) (\<lambda>ret.
          bindE (opVec spv self [self, ret]) (\<lambda>j s.
            (Inr (Some ret), set_job ret (Some j) s))))"

definition opVec1 :: "string \<Rightarrow> nat \<Rightarrow> state \<Rightarrow> (error + nat option) \<times> state" where
  "opVec1 spv self =
     bindE (opVec spv self [self]) (\<lambda>j s. (Inr None, set_job self (Some j) s))"

definition opVecScalar :: "string \<Rightarrow> nat \<Rightarrow> nat list \<Rightarrow> real \<Rightarrow> state \<Rightarrow> (error + nat) \<times> state" where
  "opVecScalar spv self buffers scalar s =
     (let size = buf_size (buffer (arr s self))
      in submit spv 64 1 1 (map (\<lambda>b. buffer (arr s b)) buffers)
           (DataShape size 1 1) (VectorScalarParams size scalar) (semaphores_of buffers s) s)"

definition opVecScalar2 :: "string \<Rightarrow> nat \<Rightarrow> real \<Rightarrow> state \<Rightarrow> (error + nat option) \<times> state" where
  "opVecScalar2 spv self other =
     bindE (\<lambda>s. Array_init None (Some (shape (arr s self))) s) (\<lambda>ret.
     bindE (opVecScalar spv self [self, ret] other) (\<lambda>j s.
       (Inr (Some ret), set_job ret (Some j) s)))"

definition opVecScalar1 :: "string \<Rightarrow> nat \<Rightarrow> real \<Rightarrow> state \<Rightarrow> (error + nat option) \<times> state" where
  "opVecScalar1 spv self other =
     bindE (opVecScalar spv self [self] other) (\<lambda>j s. (Inr None, set_job self (Some j) s))"

definition opVec2Scalar ::
  "string \<Rightarrow> nat \<Rightarrow> nat list \<Rightarrow> real \<times> real \<Rightarrow> state \<Rightarrow> (error + nat) \<times> state" where
  "opVec2Scalar spv self buffers scalars s =
     (let size = buf_size (buffer (arr s self))
      in submit spv 64 1 1 (map (\<lambda>b. buffer (arr s b)) buffers)
           (DataShape size 1 1) (VectorScalar2Params size (fst scalars) (snd scalars))
           (semaphores_of buffers s) s)"

text \<open>The in-place operators end with \<open>return self\<close>.\<close>

definition return_self :: "nat \<Rightarrow> (state \<Rightarrow> (error + nat option) \<times> state)
    \<Rightarrow> state \<Rightarrow> (error + nat option) \<times> state" where
  "return_self self m = bindE m (\<lambda>_ s. (Inr (Some self), s))"

text \<open>The operators \<open>__add__\<close>, \<open>__sub__\<close>, \<open>__mul__\<close>, \<open>__truediv__\<close> and their in-place and reflected forms.\<close>

definition array_add :: "nat \<Rightarrow> operand \<Rightarrow> state \<Rightarrow> (error + nat option) \<times> state" where
  "array_add self other =
     (case other of
        Arr other' \<Rightarrow> opVec3 k_add self other'
      | Scalar x \<Rightarrow> opVecScalar2 k_add_scalar self x)"

definition array_sub :: "nat \<Rightarrow> operand \<Rightarrow> state \<Rightarrow> (error + nat option) \<times> state" where
  "array_sub self other =
     (case other of
        Arr other' \<Rightarrow> opVec3 k_sub self other'
      | Scalar x \<Rightarrow> opVecScalar2 k_sub_scalar self x)"

definition array_mul :: "nat \<Rightarrow> operand \<Rightarrow> state \<Rightarrow> (error + nat option) \<times> state" where
  "array_mul self other =
     (case other of
        Arr other' \<Rightarrow> opVec3 k_mul self other'
      | Scalar x \<Rightarrow> opVecScalar2 k_mul_scalar self x)"

definition array_truediv :: "nat \<Rightarrow> operand \<Rightarrow> state \<Rightarrow> (error + nat option) \<times> state" where
  "array_truediv self other =
     (case other of
        Arr other' \<Rightarrow> opVec3 k_div self other'
      | Scalar x \<Rightarrow> opVecScalar2 k_div_scalar self x)"

definition array_iadd :: "nat \<Rightarrow> operand \<Rightarrow> state \<Rightarrow> (error + nat option) \<times> state" where
  "array_iadd self other =
     return_self self
       (case other of
          Arr other' \<Rightarrow> opVec2 k_iadd self (Some other')
        | Scalar x \<Rightarrow> opVecScalar1 k_iadd_scalar self x)"

definition array_isub :: "nat \<Rightarrow> operand \<Rightarrow> state \<Rightarrow> (error + nat option) \<times> state" where
  "array_isub self other =
     return_self self
       (case other of
          Arr other' \<Rightarrow> opVec2 k_isub self (Some other')
        | Scalar x \<Rightarrow> opVecScalar1 k_isub_scalar self x)"

definition array_imul :: "nat \<Rightarrow> operand \<Rightarrow> state \<Rightarrow> (error + nat option) \<times> state" where
  "array_imul self other =
     return_self self
       (case other of
          Arr other' \<Rightarrow> opVec2 k_imul self (Some other')
        | Scalar x \<Rightarrow> opVecScalar1 k_imul_scalar self x)"

definition array_itruediv :: "nat \<Rightarrow> operand \<Rightarrow> state \<Rightarrow> (error + nat option) \<times> state" where
  "array_itruediv self other =
     return_self self
       (case other of
          Arr other' \<Rightarrow> opVec2 k_idiv self (Some other')
        | Scalar x \<Rightarrow> opVecScalar1 k_idiv_scalar self x)"

definition array_radd :: "nat \<Rightarrow> real \<Rightarrow> state \<Rightarrow> (error + nat option) \<times> state" where
  "array_radd self other = opVecScalar2 k_add_scalar self other"

definition array_rsub :: "nat \<Rightarrow> real \<Rightarrow> state \<Rightarrow> (error + nat option) \<times> state" where
  "array_rsub self other = opVecScalar2 k_rsub_scalar self other"

definition array_rmul :: "nat \<Rightarrow> real \<Rightarrow> state \<Rightarrow> (error + nat option) \<times> state" where
  "array_rmul self other = opVecScalar2 k_mul_scalar self other"

definition array_rtruediv :: "nat \<Rightarrow> real \<Rightarrow> state \<Rightarrow> (error + nat option) \<times> state" where
  "array_rtruediv self other = opVecScalar2 k_rdiv_scalar self other"

text \<open>
  \<open>__matmul__\<close>.  The condition is evaluated left to right: the two rank tests, then
  \<open>self.shape[-1]\<close> and \<open>other.shape[0]\<close>, which raise IndexError on an empty shape.
\<close>

definition array_matmul :: "nat \<Rightarrow> nat \<Rightarrow> state \<Rightarrow> (error + nat option) \<times> state" where
  "array_matmul self other s =
     (let sa = shape (arr s self); sb = shape (arr s other) in
      if length sa > 3 then (Inl ValueError, s)
      else if length sb > 3 then (Inl ValueError, s)
      else if sa = [] then (Inl IndexError, s)
      else if sb = [] then (Inl IndexError, s)
      else if last sa \<noteq> hd sb then (Inl ValueError, s)
      else
        let shp = butlast sa @ tl sb;
            shp = (if length shp = 0 then [1] else shp);
            rowA = (if length sa > 1 then hd sa else 1);
            contractSize = last sa;
            columnB = (if length sb > 1 then sb ! 1 else 1)
        in bindE (Array_init None (Some shp)) (\<lambda>ret.
           bindE (\<lambda>s1. submit k_matmul 1 64 1
                    [buffer (arr s1 self), buffer (arr s1 other), buffer (arr s1 ret)]
                    (DataShape rowA columnB 1) (MatMulParams rowA contractSize columnB)
                    (semaphores_of [self, other] s1) s1) (\<lambda>j s2.
             (Inr (Some ret), set_job ret (Some j) s2))) s)"

text \<open>\<open>wait\<close>: a blocking wait on the pending job, if there is one, then \<open>self.job = None\<close>.\<close>

definition array_wait :: "nat \<Rightarrow> state \<Rightarrow> state" where
  "array_wait self s =
     (case job (arr s self) of
        Some j \<Rightarrow> set_job self None (s\<lparr>trace := trace s @ [Wait j]\<rparr>)
      | None \<Rightarrow> s)"

text \<open>
  \<open>__getitem__\<close>, \<open>__setitem__\<close>, \<open>__str__\<close> and \<open>__array__\<close>.  \<open>self.array\<close> is the
  host-visible view of the buffer; a read or a write of it is recorded with the
  key, the value read is not followed.  \<open>__str__\<close> reads the whole view (no key),
  \<open>__array__\<close> hands the view out without reading it.
\<close>

definition array_getitem :: "nat \<Rightarrow> int \<Rightarrow> state \<Rightarrow> state" where
  "array_getitem self key s =
     (let s1 = array_wait self s
      in s1\<lparr>trace := trace s1 @ [HostRead (buffer (arr s1 self)) (Some key)]\<rparr>)"

definition array_setitem :: "nat \<Rightarrow> int \<Rightarrow> real \<Rightarrow> state \<Rightarrow> state" where
  "array_setitem self key v s =
     s\<lparr>trace := trace s @ [HostWrite (buffer (arr s self)) key v]\<rparr>"

definition array_str :: "nat \<Rightarrow> state \<Rightarrow> state" where
  "array_str self s =
     (let s1 = array_wait self s
      in s1\<lparr>trace := trace s1 @ [HostRead (buffer (arr s1 self)) None]\<rparr>)"

definition array_array :: "nat \<Rightarrow> state \<Rightarrow> buffer \<times> state" where
  "array_array self s = (let s1 = array_wait self s in (buffer (arr s1 self), s1))"

definition array_max :: "nat \<Rightarrow> operand \<Rightarrow> bool \<Rightarrow> state \<Rightarrow> (error + nat option) \<times> state" where
  "array_max self other inplace =
     (case other of
        Arr other' \<Rightarrow>
          if inplace then opVec2 k_imax self (Some other') else opVec3 k_max self other'
      | Scalar x \<Rightarrow>
          if inplace then opVecScalar1 k_imax_scalar self x else opVecScalar2 k_max_scalar self x)"

definition array_min :: "nat \<Rightarrow> operand \<Rightarrow> bool \<Rightarrow> state \<Rightarrow> (error + nat option) \<times> state" where
  "array_min self other inplace =
     (case other of
        Arr other' \<Rightarrow>
          if inplace then opVec2 k_imin self (Some other') else opVec3 k_min self other'
      | Scalar x \<Rightarrow>
          if inplace then opVecScalar1 k_imin_scalar self x else opVecScalar2 k_min_scalar self x)"

text \<open>The twenty unary methods, \<open>abs\<close> to \<open>invsqrt\<close>.\<close>

definition array_abs :: "nat \<Rightarrow> bool \<Rightarrow> state \<Rightarrow> (error + nat option) \<times> state" where
  "array_abs self inplace = (if inplace then opVec1 k_iabs self else opVec2 k_abs self None)"

definition array_sign :: "nat \<Rightarrow> bool \<Rightarrow> state \<Rightarrow> (error + nat option) \<times> state" where
  "array_sign self inplace = (if inplace then opVec1 k_isign self else opVec2 k_sign self None)"

definition array_sin :: "nat \<Rightarrow> bool \<Rightarrow> state \<Rightarrow> (error + nat option) \<times> state" where
  "array_sin self inplace = (if inplace then opVec1 k_isin self else opVec2 k_sin self None)"

definition array_cos :: "nat \<Rightarrow> bool \<Rightarrow> state \<Rightarrow> (error + nat option) \<times> state" where
  "array_cos self inplace = (if inplace then opVec1 k_icos self else opVec2 k_cos self None)"

definition array_tan :: "nat \<Rightarrow> bool \<Rightarrow> state \<Rightarrow> (error + nat option) \<times> state" where
  "array_tan self inplace = (if inplace then opVec1 k_itan self else opVec2 k_tan self None)"

definition array_asin :: "nat \<Rightarrow> bool \<Rightarrow> state \<Rightarrow> (error + nat option) \<times> state" where
  "array_asin self inplace = (if inplace then opVec1 k_iasin self else opVec2 k_asin self None)"

definition array_acos :: "nat \<Rightarrow> bool \<Rightarrow> state \<Rightarrow> (error + nat option) \<times> state" where
  "array_acos self inplace = (if inplace then opVec1 k_iacos self else opVec2 k_acos self None)"

definition array_atan :: "nat \<Rightarrow> bool \<Rightarrow> state \<Rightarrow> (error + nat option) \<times> state" where
  "array_atan self inplace = (if inplace then opVec1 k_iatan self else opVec2 k_atan self None)"

definition array_sinh :: "nat \<Rightarrow> bool \<Rightarrow> state \<Rightarrow> (error + nat option) \<times> state" where
  "array_sinh self inplace = (if inplace then opVec1 k_isinh self else opVec2 k_sinh self None)"

definition array_cosh :: "nat \<Rightarrow> bool \<Rightarrow> state \<Rightarrow> (error + nat option) \<times> state" where
  "array_cosh self inplace = (if inplace then opVec1 k_icosh self else opVec2 k_cosh self None)"

definition array_tanh :: "nat \<Rightarrow> bool \<Rightarrow> state \<Rightarrow> (error + nat option) \<times> state" where
  "array_tanh self inplace = (if inplace then opVec1 k_itanh self else opVec2 k_tanh self None)"

definition array_asinh :: "nat \<Rightarrow> bool \<Rightarrow> state \<Rightarrow> (error + nat option) \<times> state" where
  "array_asinh self inplace = (if inplace then opVec1 k_iasinh self else opVec2 k_asinh self None)"

definition array_acosh :: "nat \<Rightarrow> bool \<Rightarrow> state \<Rightarrow> (error + nat option) \<times> state" where
  "array_acosh self inplace = (if inplace then opVec1 k_iacosh self else opVec2 k_acosh self None)"

definition array_atanh :: "nat \<Rightarrow> bool \<Rightarrow> state \<Rightarrow> (error + nat option) \<times> state" where
  "array_atanh self inplace = (if inplace then opVec1 k_iatanh self else opVec2 k_atanh self None)"

definition array_exp :: "nat \<Rightarrow> bool \<Rightarrow> state \<Rightarrow> (error + nat option) \<times> state" where
  "array_exp self inplace = (if inplace then opVec1 k_iexp self else opVec2 k_exp self None)"

definition array_log :: "nat \<Rightarrow> bool \<Rightarrow> state \<Rightarrow> (error + nat option) \<times> state" where
  "array_log self inplace = (if inplace then opVec1 k_ilog self else opVec2 k_log self None)"

definition array_exp2 :: "nat \<Rightarrow> bool \<Rightarrow> state \<Rightarrow> (error + nat option) \<times> state" where
  "array_exp2 self inplace = (if inplace then opVec1 k_iexp2 self else opVec2 k_exp2 self None)"

definition array_log2 :: "nat \<Rightarrow> bool \<Rightarrow> state \<Rightarrow> (error + nat option) \<times> state" where
  "array_log2 self inplace = (if inplace then opVec1 k_ilog2 self else opVec2 k_log2 self None)"

definition array_sqrt :: "nat \<Rightarrow> bool \<Rightarrow> state \<Rightarrow> (error + nat option) \<times> state" where
  "array_sqrt self inplace = (if inplace then opVec1 k_isqrt self else opVec2 k_sqrt self None)"

definition array_invsqrt :: "nat \<Rightarrow> bool \<Rightarrow> state \<Rightarrow> (error + nat option) \<times> state" where
  "array_invsqrt self inplace = (if inplace then opVec1 k_iinvsqrt self else opVec2 k_invsqrt self None)"

text \<open>\<open>__pow__\<close>, \<open>__ipow__\<close>, \<open>__rpow__\<close>.\<close>

definition array_pow :: "nat \<Rightarrow> operand \<Rightarrow> state \<Rightarrow> (error + nat option) \<times> state" where
  "array_pow self other =
     (case other of
        Arr other' \<Rightarrow> opVec3 k_pow self other'
      | Scalar x \<Rightarrow> opVecScalar2 k_pow_scalar self x)"

definition array_ipow :: "nat \<Rightarrow> operand \<Rightarrow> state \<Rightarrow> (error + nat option) \<times> state" where
  "array_ipow self other =
     return_self self
       (case other of
          Arr other' \<Rightarrow> opVec2 k_ipow self (Some other')
        | Scalar x \<Rightarrow> opVecScalar1 k_ipow_scalar self x)"

definition array_rpow :: "nat \<Rightarrow> real \<Rightarrow> state \<Rightarrow> (error + nat option) \<times> state" where
  "array_rpow self other = opVecScalar2 k_rpow_scalar self other"

text \<open>
  \<open>clamp\<close>.  The bounds are checked first, \<open>min\<close> before \<open>max\<close>; the result Array of
  the out-of-place form is allocated after both checks.
\<close>

definition check_bound :: "nat \<Rightarrow> operand \<Rightarrow> state \<Rightarrow> (error + unit) \<times> state" where
  "check_bound self b =
     (case b of Arr b' \<Rightarrow> check_shape self b' | Scalar _ \<Rightarrow> (\<lambda>s. (Inr (), s)))"

definition attach :: "nat \<Rightarrow> nat option \<Rightarrow> (state \<Rightarrow> (error + nat) \<times> state)
    \<Rightarrow> state \<Rightarrow> (error + nat option) \<times> state" where
  "attach r res m = bindE m (\<lambda>j s. (Inr res, set_job r (Some j) s))"

definition array_clamp ::
  "nat \<Rightarrow> operand \<Rightarrow> operand \<Rightarrow> bool \<Rightarrow> state \<Rightarrow> (error + nat option) \<times> state" where
  "array_clamp self mn mx inplace =
     bindE (check_bound self mn) (\<lambda>_.
     bindE (check_bound self mx) (\<lambda>_.
       if \<not> inplace then
         bindE (\<lambda>s. Array_init None (Some (shape (arr s self))) s) (\<lambda>ret.
           case (mn, mx) of
             (Arr mn', Arr mx') \<Rightarrow>
               attach ret (Some ret) (opVec k_clamp self [self, mn', mx', ret])
           | (Scalar mn', Arr mx') \<Rightarrow>
               attach ret (Some ret) (opVecScalar k_clamp_sv self [self, mx', ret] mn')
           | (Arr mn', Scalar mx') \<Rightarrow>
               attach ret (Some ret) (opVecScalar k_clamp_vs self [self, mn', ret] mx')
           | (Scalar mn', Scalar mx') \<Rightarrow>
               attach ret (Some ret) (opVec2Scalar k_clamp_ss self [self, ret] (mn', mx')))
       else
         (case (mn, mx) of
            (Arr mn', Arr mx') \<Rightarrow>
              attach self None (opVec k_iclamp self [self, mn', mx'])
          | (Scalar mn', Arr mx') \<Rightarrow>
              attach self None (opVecScalar k_iclamp_sv self [self, mx'] mn')
          | (Arr mn', Scalar mx') \<Rightarrow>
              attach self None (opVecScalar k_iclamp_vs self [self, mn'] mx')
          | (Scalar mn', Scalar mx') \<Rightarrow>
              attach self None (opVec2Scalar k_iclamp_ss self [self] (mn', mx')))))"

section \<open>Calls\<close>

text \<open>
  The public operations of \<open>Array\<close> as one datatype, so that a statement can range
  over all of them.  \<open>run\<close> sends each call to the method of that name.
\<close>

datatype operator = Add | Sub | Mul | TrueDiv | Power

datatype minmax = Maximum | Minimum

datatype unary =
    U_abs | U_sign | U_sin | U_cos | U_tan | U_asin | U_acos | U_atan | U_sinh | U_cosh
  | U_tanh | U_asinh | U_acosh | U_atanh | U_exp | U_log | U_exp2 | U_log2 | U_sqrt | U_invsqrt

datatype call =
    Binary operator nat operand
  | InplaceBinary operator nat operand
  | Reflected operator nat real
  | MinMax minmax nat operand bool
  | Unary unary nat bool
  | MatMul nat nat
  | Clamp nat operand operand bool

fun run_unary :: "unary \<Rightarrow> nat \<Rightarrow> bool \<Rightarrow> state \<Rightarrow> (error + nat option) \<times> state" where
  "run_unary U_abs = array_abs"
| "run_unary U_sign = array_sign"
| "run_unary U_sin = array_sin"
| "run_unary U_cos = array_cos"
| "run_unary U_tan = array_tan"
| "run_unary U_asin = array_asin"
| "run_unary U_acos = array_acos"
| "run_unary U_atan = array_atan"
| "run_unary U_sinh = array_sinh"
| "run_unary U_cosh = array_cosh"
| "run_unary U_tanh = array_tanh"
| "run_unary U_asinh = array_asinh"
| "run_unary U_acosh = array_acosh"
| "run_unary U_atanh = array_atanh"
| "run_unary U_exp = array_exp"
| "run_unary U_log = array_log"
| "run_unary U_exp2 = array_exp2"
| "run_unary U_log2 = array_log2"
| "run_unary U_sqrt = array_sqrt"
| "run_unary U_invsqrt = array_invsqrt"

fun run :: "call \<Rightarrow> state \<Rightarrow> (error + nat option) \<times> state" where
  "run (Binary Add self other) = array_add self other"
| "run (Binary Sub self other) = array_sub self other"
| "run (Binary Mul self other) = array_mul self other"
| "run (Binary TrueDiv self other) = array_truediv self other"
| "run (Binary Power self other) = array_pow self other"
| "run (InplaceBinary Add self other) = array_iadd self other"
| "run (InplaceBinary Sub self other) = array_isub self other"
| "run (InplaceBinary Mul self other) = array_imul self other"
| "run (InplaceBinary TrueDiv self other) = array_itruediv self other"
| "run (InplaceBinary Power self other) = array_ipow self other"
| "run (Reflected Add self other) = array_radd self other"
| "run (Reflected Sub self other) = array_rsub self other"
| "run (Reflected Mul self other) = array_rmul self other"
| "run (Reflected TrueDiv self other) = array_rtruediv self other"
| "run (Reflected Power self other) = array_rpow self other"
| "run (MinMax Maximum self other inplace) = array_max self other inplace"
| "run (MinMax Minimum self other inplace) = array_min self other inplace"
| "run (Unary u self inplace) = run_unary u self inplace"
| "run (MatMul self other) = array_matmul self other"
| "run (Clamp self mn mx inplace) = array_clamp self mn mx inplace"

section \<open>The dispatch described\<close>

text \<open>
  What follows is written from the specification, not from the code: the kernel
  naming convention, the parameter packings, the workgroup dimensions, and the
  state a successful call leaves behind.  The theorems below compare \<open>run\<close> with it.
\<close>

fun self_of :: "call \<Rightarrow> nat" where
  "self_of (Binary _ self _) = self"
| "self_of (InplaceBinary _ self _) = self"
| "self_of (Reflected _ self _) = self"
| "self_of (MinMax _ self _ _) = self"
| "self_of (Unary _ self _) = self"
| "self_of (MatMul self _) = self"
| "self_of (Clamp self _ _ _) = self"

fun arrays_in :: "operand list \<Rightarrow> nat list" where
  "arrays_in [] = []"
| "arrays_in (Arr r # xs) = r # arrays_in xs"
| "arrays_in (Scalar _ # xs) = arrays_in xs"

fun scalars_in :: "operand list \<Rightarrow> real list" where
  "scalars_in [] = []"
| "scalars_in (Arr _ # xs) = scalars_in xs"
| "scalars_in (Scalar x # xs) = x # scalars_in xs"

text \<open>The arguments of a call after \<open>self\<close>, in the order they are written.\<close>

fun arguments :: "call \<Rightarrow> operand list" where
  "arguments (Binary _ _ other) = [other]"
| "arguments (InplaceBinary _ _ other) = [other]"
| "arguments (Reflected _ _ x) = [Scalar x]"
| "arguments (MinMax _ _ other _) = [other]"
| "arguments (Unary _ _ _) = []"
| "arguments (MatMul _ other) = [Arr other]"
| "arguments (Clamp _ mn mx _) = [mn, mx]"

text \<open>The operand Arrays of a call: \<open>self\<close>, then the Array arguments.\<close>

definition operands :: "call \<Rightarrow> nat list" where
  "operands c = self_of c # arrays_in (arguments c)"

fun is_inplace :: "call \<Rightarrow> bool" where
  "is_inplace (Binary _ _ _) = False"
| "is_inplace (InplaceBinary _ _ _) = True"
| "is_inplace (Reflected _ _ _) = False"
| "is_inplace (MinMax _ _ _ inplace) = inplace"
| "is_inplace (Unary _ _ inplace) = inplace"
| "is_inplace (MatMul _ _) = False"
| "is_inplace (Clamp _ _ _ inplace) = inplace"

fun is_matmul :: "call \<Rightarrow> bool" where
  "is_matmul (MatMul _ _) = True"
| "is_matmul _ = False"

text \<open>Every operand is an Array of the store.\<close>

definition valid :: "call \<Rightarrow> state \<Rightarrow> bool" where
  "valid c s = list_all (\<lambda>r. r < length (heap s)) (operands c)"

text \<open>The shape conditions under which a call is accepted.\<close>

definition matmul_ok :: "nat list \<Rightarrow> nat list \<Rightarrow> bool" where
  "matmul_ok sa sb =
     (length sa \<le> 3 \<and> length sb \<le> 3 \<and> sa \<noteq> [] \<and> sb \<noteq> [] \<and> last sa = hd sb)"

definition accepted :: "call \<Rightarrow> state \<Rightarrow> bool" where
  "accepted c s =
     (case c of
        MatMul self other \<Rightarrow> matmul_ok (shape (arr s self)) (shape (arr s other))
      | _ \<Rightarrow> list_all (\<lambda>r. shape (arr s r) = shape (arr s (self_of c))) (operands c))"

subsection \<open>Kernel names\<close>

fun operator_name :: "operator \<Rightarrow> string" where
  "operator_name Add = ''add''"
| "operator_name Sub = ''sub''"
| "operator_name Mul = ''mul''"
| "operator_name TrueDiv = ''div''"
| "operator_name Power = ''pow''"

fun minmax_name :: "minmax \<Rightarrow> string" where
  "minmax_name Maximum = ''max''"
| "minmax_name Minimum = ''min''"

fun unary_name :: "unary \<Rightarrow> string" where
  "unary_name U_abs = ''abs''"
| "unary_name U_sign = ''sign''"
| "unary_name U_sin = ''sin''"
| "unary_name U_cos = ''cos''"
| "unary_name U_tan = ''tan''"
| "unary_name U_asin = ''asin''"
| "unary_name U_acos = ''acos''"
| "unary_name U_atan = ''atan''"
| "unary_name U_sinh = ''sinh''"
| "unary_name U_cosh = ''cosh''"
| "unary_name U_tanh = ''tanh''"
| "unary_name U_asinh = ''asinh''"
| "unary_name U_acosh = ''acosh''"
| "unary_name U_atanh = ''atanh''"
| "unary_name U_exp = ''exp''"
| "unary_name U_log = ''log''"
| "unary_name U_exp2 = ''exp2''"
| "unary_name U_log2 = ''log2''"
| "unary_name U_sqrt = ''sqrt''"
| "unary_name U_invsqrt = ''invsqrt''"

text \<open>The operators that are not commutative have a reversed scalar kernel.\<close>

fun has_reversed :: "operator \<Rightarrow> bool" where
  "has_reversed Sub = True"
| "has_reversed TrueDiv = True"
| "has_reversed Power = True"
| "has_reversed _ = False"

definition inplace_prefix :: "bool \<Rightarrow> string" where
  "inplace_prefix inplace = (if inplace then ''i'' else [])"

fun scalar_suffix :: "operand \<Rightarrow> string" where
  "scalar_suffix (Arr _) = []"
| "scalar_suffix (Scalar _) = ''_scalar''"

fun clamp_suffix :: "operand \<Rightarrow> operand \<Rightarrow> string" where
  "clamp_suffix (Arr _) (Arr _) = []"
| "clamp_suffix (Scalar _) (Arr _) = ''_sv''"
| "clamp_suffix (Arr _) (Scalar _) = ''_vs''"
| "clamp_suffix (Scalar _) (Scalar _) = ''_ss''"

fun kernel_name :: "call \<Rightarrow> string" where
  "kernel_name (Binary op _ other) = operator_name op @ scalar_suffix other"
| "kernel_name (InplaceBinary op _ other) = ''i'' @ operator_name op @ scalar_suffix other"
| "kernel_name (Reflected op _ _) =
     (if has_reversed op then ''r'' else []) @ operator_name op @ ''_scalar''"
| "kernel_name (MinMax m _ other inplace) =
     inplace_prefix inplace @ minmax_name m @ scalar_suffix other"
| "kernel_name (Unary u _ inplace) = inplace_prefix inplace @ unary_name u"
| "kernel_name (MatMul _ _) = ''matmul''"
| "kernel_name (Clamp _ mn mx inplace) = inplace_prefix inplace @ ''clamp'' @ clamp_suffix mn mx"

definition kernel_file :: "call \<Rightarrow> string" where
  "kernel_file c = path_join shader_dir (kernel_name c @ ''.spv'')"

subsection \<open>Shapes, parameters and workgroups\<close>

definition matmul_shape :: "nat list \<Rightarrow> nat list \<Rightarrow> nat list" where
  "matmul_shape sa sb = (if butlast sa @ tl sb = [] then [1] else butlast sa @ tl sb)"

definition matmul_rows :: "nat list \<Rightarrow> nat" where
  "matmul_rows sa = (if length sa = 1 then 1 else hd sa)"

definition matmul_columns :: "nat list \<Rightarrow> nat" where
  "matmul_columns sb = (if length sb = 1 then 1 else sb ! 1)"

definition result_shape :: "call \<Rightarrow> state \<Rightarrow> nat list" where
  "result_shape c s =
     (case c of
        MatMul self other \<Rightarrow> matmul_shape (shape (arr s self)) (shape (arr s other))
      | _ \<Rightarrow> shape (arr s (self_of c)))"

definition result_buffer :: "call \<Rightarrow> state \<Rightarrow> buffer" where
  "result_buffer c s = Buffer (next_buf s) (prod_list (result_shape c s))"

definition call_buffers :: "call \<Rightarrow> state \<Rightarrow> buffer list" where
  "call_buffers c s =
     map (\<lambda>r. buffer (arr s r)) (operands c) @ (if is_inplace c then [] else [result_buffer c s])"

definition element_count :: "call \<Rightarrow> state \<Rightarrow> nat" where
  "element_count c s = buf_size (buffer (arr s (self_of c)))"

definition call_local :: "call \<Rightarrow> nat \<times> nat \<times> nat" where
  "call_local c = (if is_matmul c then (1, 64, 1) else (64, 1, 1))"

definition call_datashape :: "call \<Rightarrow> state \<Rightarrow> datashape" where
  "call_datashape c s =
     (case c of
        MatMul self other \<Rightarrow>
          DataShape (matmul_rows (shape (arr s self))) (matmul_columns (shape (arr s other))) 1
      | _ \<Rightarrow> DataShape (element_count c s) 1 1)"

definition call_params :: "call \<Rightarrow> state \<Rightarrow> params" where
  "call_params c s =
     (case c of
        MatMul self other \<Rightarrow>
          MatMulParams (matmul_rows (shape (arr s self))) (last (shape (arr s self)))
            (matmul_columns (shape (arr s other)))
      | _ \<Rightarrow>
          (case scalars_in (arguments c) of
             [] \<Rightarrow> VectorParams (element_count c s)
           | [x] \<Rightarrow> VectorScalarParams (element_count c s) x
           | x # y # _ \<Rightarrow> VectorScalar2Params (element_count c s) x y))"

text \<open>
  The value a successful call returns: the in-place operators return \<open>self\<close>, the
  in-place methods \<open>None\<close>, every other call the new Array.
\<close>

definition call_result :: "call \<Rightarrow> state \<Rightarrow> nat option" where
  "call_result c s =
     (case c of
        InplaceBinary _ self _ \<Rightarrow> Some self
      | _ \<Rightarrow> if is_inplace c then None else Some (length (heap s)))"

text \<open>
  The state a successful call leaves behind: one submission, with the pending jobs
  of the operands as its dependencies, and the new job attached to the Array that
  is written, which is \<open>self\<close> for an in-place call and a new Array otherwise.
\<close>

definition call_post :: "call \<Rightarrow> state \<Rightarrow> state" where
  "call_post c s =
     (let s1 = submitted (kernel_file c) (fst (call_local c)) (fst (snd (call_local c)))
                 (snd (snd (call_local c))) (call_buffers c s) (call_datashape c s)
                 (call_params c s) (semaphores_of (operands c) s) s
      in if is_inplace c
         then s1\<lparr>heap := (heap s)[self_of c := (arr s (self_of c))\<lparr>job := Some (next_job s)\<rparr>]\<rparr>
         else s1\<lparr>next_buf := Suc (next_buf s),
                 heap := heap s @
                   [\<lparr>shape = result_shape c s, buffer = result_buffer c s,
                     job = Some (next_job s)\<rparr>]\<rparr>)"

text \<open>Projections of the trace.\<close>

fun is_Submit :: "event \<Rightarrow> bool" where
  "is_Submit (Submit _ _ _ _ _ _ _ _) = True"
| "is_Submit _ = False"

fun is_Compile :: "event \<Rightarrow> bool" where
  "is_Compile (Compile _ _) = True"
| "is_Compile _ = False"

fun is_Wait :: "event \<Rightarrow> bool" where
  "is_Wait (Wait _) = True"
| "is_Wait _ = False"

definition submissions :: "state \<Rightarrow> event list" where
  "submissions s = filter is_Submit (trace s)"

definition compilations :: "state \<Rightarrow> event list" where
  "compilations s = filter is_Compile (trace s)"

definition waits :: "state \<Rightarrow> event list" where
  "waits s = filter is_Wait (trace s)"

text \<open>The cache key and the submission of a successful call.\<close>

definition call_key :: "call \<Rightarrow> state \<Rightarrow> opkey" where
  "call_key c s =
     (kernel_file c, length (call_buffers c s), call_params c s,
      fst (call_local c), fst (snd (call_local c)), snd (snd (call_local c)))"

definition call_submission :: "call \<Rightarrow> state \<Rightarrow> event" where
  "call_submission c s =
     Submit (fst (createOp (call_key c s) s)) (kernel_file c) (call_local c) (call_buffers c s)
       (call_datashape c s) (call_params c s) (semaphores_of (operands c) s) (next_job s)"

text \<open>The last event of the trace after a call; for a successful call, its submission.\<close>

definition issued :: "call \<Rightarrow> state \<Rightarrow> event" where
  "issued c s = last (trace (snd (run c s)))"

text \<open>Every Array's buffer holds as many elements as its shape says.\<close>

definition consistent :: "state \<Rightarrow> bool" where
  "consistent s = list_all (\<lambda>a. buf_size (buffer a) = prod_list (shape a)) (heap s)"

text \<open>The three ways of materialising an Array on the host.\<close>

datatype materialization = GetItem int | ToStr | ToArray

fun materialize :: "materialization \<Rightarrow> nat \<Rightarrow> state \<Rightarrow> state" where
  "materialize (GetItem key) self s = array_getitem self key s"
| "materialize ToStr self s = array_str self s"
| "materialize ToArray self s = snd (array_array self s)"

fun reads_of :: "materialization \<Rightarrow> buffer \<Rightarrow> event list" where
  "reads_of (GetItem key) b = [HostRead b (Some key)]"
| "reads_of ToStr b = [HostRead b None]"
| "reads_of ToArray b = []"

text \<open>A call of \<open>GPU._submit\<close> by its arguments, its cache key, and a sequence of such calls.\<close>

type_synonym submit_call =
  "string \<times> (nat \<times> nat \<times> nat) \<times> buffer list \<times> datashape \<times> params \<times> nat list"

fun signature_of :: "submit_call \<Rightarrow> opkey" where
  "signature_of (spv, (x, y, z), buffers, shp, ps, sems) = (spv, length buffers, ps, x, y, z)"

fun buffers_of :: "submit_call \<Rightarrow> buffer list" where
  "buffers_of (spv, l, buffers, shp, ps, sems) = buffers"

fun do_submit :: "submit_call \<Rightarrow> state \<Rightarrow> state" where
  "do_submit (spv, (x, y, z), buffers, shp, ps, sems) s =
     snd (submit spv x y z buffers shp ps sems s)"

fun do_submits :: "submit_call list \<Rightarrow> state \<Rightarrow> state" where
  "do_submits [] s = s"
| "do_submits (a # as) s = do_submits as (do_submit a s)"

section \<open>Example states\<close>

text \<open>A device context on which nothing was compiled or allocated yet.\<close>

definition fresh :: state where
  "fresh = \<lparr>cache = Map.empty, next_op = 0, next_job = 0, next_buf = 0, heap = [], trace = []\<rparr>"

text \<open>
  Four Arrays: two vectors of three elements, the first with job \<open>0\<close> pending from an
  in-place \<open>abs\<close>, a \<open>2 \<times> 3\<close> and a \<open>3 \<times> 4\<close> matrix.
\<close>

definition example :: state where
  "example =
     \<lparr>cache = [(k_iabs, 1, VectorParams 3, 64, 1, 1) \<mapsto> 0],
      next_op = 1, next_job = 1, next_buf = 4,
      heap = [\<lparr>shape = [3], buffer = Buffer 0 3, job = Some 0\<rparr>,
              \<lparr>shape = [3], buffer = Buffer 1 3, job = None\<rparr>,
              \<lparr>shape = [2, 3], buffer = Buffer 2 6, job = None\<rparr>,
              \<lparr>shape = [3, 4], buffer = Buffer 3 12, job = None\<rparr>],
      trace = [Compile (k_iabs, 1, VectorParams 3, 64, 1, 1) 0,
               Submit 0 k_iabs (64, 1, 1) [Buffer 0 3] (DataShape 3 1 1) (VectorParams 3) [] 0]\<rparr>"

text \<open>A zero-dimensional Array (as made from a single number) and a vector of three elements.\<close>

definition rank0_example :: state where
  "rank0_example =
     \<lparr>cache = Map.empty, next_op = 0, next_job = 0, next_buf = 2,
      heap = [\<lparr>shape = [], buffer = Buffer 0 1, job = None\<rparr>,
              \<lparr>shape = [3], buffer = Buffer 1 3, job = None\<rparr>],
      trace = []\<rparr>"

text \<open>Two submissions of one kernel that differ in the element count only.\<close>

definition submit3 :: submit_call where
  "submit3 = (k_iabs, (64, 1, 1), [Buffer 0 3], DataShape 3 1 1, VectorParams 3, [])"

definition submit4 :: submit_call where
  "submit4 = (k_iabs, (64, 1, 1), [Buffer 1 4], DataShape 4 1 1, VectorParams 4, [])"

section \<open>Facts about \<open>GPU._createOp\<close> and \<open>GPU._submit\<close>\<close>

lemmas kernel_defs =
  k_add_def k_sub_def k_mul_def k_div_def k_iadd_def k_isub_def
  k_imul_def k_idiv_def k_add_scalar_def k_sub_scalar_def k_mul_scalar_def k_div_scalar_def
  k_iadd_scalar_def k_isub_scalar_def k_imul_scalar_def k_idiv_scalar_def k_rsub_scalar_def k_rdiv_scalar_def
  k_matmul_def k_max_def k_min_def k_imax_def k_imin_def k_max_scalar_def
  k_min_scalar_def k_imax_scalar_def k_imin_scalar_def k_abs_def k_sign_def k_iabs_def
  k_isign_def k_sin_def k_cos_def k_tan_def k_isin_def k_icos_def
  k_itan_def k_asin_def k_acos_def k_atan_def k_iasin_def k_iacos_def
  k_iatan_def k_sinh_def k_cosh_def k_tanh_def k_isinh_def k_icosh_def
  k_itanh_def k_asinh_def k_acosh_def k_atanh_def k_iasinh_def k_iacosh_def
  k_iatanh_def k_exp_def k_log_def k_iexp_def k_ilog_def k_exp2_def
  k_log2_def k_iexp2_def k_ilog2_def k_sqrt_def k_invsqrt_def k_isqrt_def
  k_iinvsqrt_def k_pow_def k_ipow_def k_pow_scalar_def k_ipow_scalar_def k_rpow_scalar_def
  k_clamp_def k_iclamp_def k_clamp_sv_def k_iclamp_sv_def k_clamp_vs_def k_iclamp_vs_def
  k_clamp_ss_def k_iclamp_ss_def

lemma createOp_fields:
  "heap (snd (createOp k s)) = heap s"
  "next_job (snd (createOp k s)) = next_job s"
  "next_buf (snd (createOp k s)) = next_buf s"
  by (simp_all add: createOp_def split: option.splits)

lemma createOp_trace:
  "trace (snd (createOp k s)) =
     trace s @ (case cache s k of None \<Rightarrow> [Compile k (next_op s)] | Some h \<Rightarrow> [])"
  by (simp add: createOp_def split: option.splits)

lemma submit_ok:
  "buffers \<noteq> [] \<Longrightarrow> submit spv x y z buffers shp ps sems s =
     (Inr (next_job s), submitted spv x y z buffers shp ps sems s)"
  by (simp add: submitted_def submit_def createOp_def split: option.splits prod.splits)

lemma submitted_fields:
  "heap (submitted spv x y z buffers shp ps sems s) = heap s"
  "next_buf (submitted spv x y z buffers shp ps sems s) = next_buf s"
  by (simp_all add: submitted_def submit_def createOp_def split: option.splits prod.splits)

lemma submitted_next_job:
  "buffers \<noteq> [] \<Longrightarrow> next_job (submitted spv x y z buffers shp ps sems s) = Suc (next_job s)"
  by (simp add: submitted_def submit_def createOp_def split: option.splits prod.splits)

lemma submitted_trace:
  "buffers \<noteq> [] \<Longrightarrow> trace (submitted spv x y z buffers shp ps sems s) =
     trace (snd (createOp (spv, length buffers, ps, x, y, z) s)) @
       [Submit (fst (createOp (spv, length buffers, ps, x, y, z) s)) spv (x, y, z)
          buffers shp ps sems (next_job s)]"
  by (simp add: submitted_def submit_def createOp_def split: option.splits prod.splits)

lemma submitted_frame:
  "submitted spv x y z buffers shp ps sems (s\<lparr>next_buf := n, heap := h\<rparr>) =
     (submitted spv x y z buffers shp ps sems s)\<lparr>next_buf := n, heap := h\<rparr>"
  by (simp add: submitted_def submit_def createOp_def split: option.splits prod.splits)

section \<open>A successful call, step by step\<close>

lemmas method_defs =
  array_add_def array_sub_def array_mul_def array_truediv_def array_pow_def
  array_iadd_def array_isub_def array_imul_def array_itruediv_def array_ipow_def
  array_radd_def array_rsub_def array_rmul_def array_rtruediv_def array_rpow_def
  array_max_def array_min_def

lemmas unary_defs =
  array_abs_def array_sign_def array_sin_def array_cos_def array_tan_def array_asin_def array_acos_def array_atan_def array_sinh_def array_cosh_def array_tanh_def array_asinh_def array_acosh_def array_atanh_def array_exp_def array_log_def array_exp2_def array_log2_def array_sqrt_def array_invsqrt_def

lemmas helper_defs =
  opVec3_def opVec2_def opVec1_def opVecScalar2_def opVecScalar1_def return_self_def
  attach_def check_bound_def bindE_def check_shape_def Array_init_def opVec_def
  opVecScalar_def opVec2Scalar_def semaphores_of_def set_job_def arr_def

lemmas described_defs =
  valid_def accepted_def operands_def call_result_def call_post_def kernel_file_def
  call_buffers_def call_local_def call_datashape_def call_params_def element_count_def
  result_shape_def result_buffer_def inplace_prefix_def

lemma run_Binary:
  assumes "valid (Binary op self other) s" and "accepted (Binary op self other) s"
  shows "run (Binary op self other) s =
     (Inr (call_result (Binary op self other) s), call_post (Binary op self other) s)"
  using assms
  by (cases op; cases other)
     (simp_all add: method_defs helper_defs described_defs kernel_defs submit_ok
        submitted_frame submitted_fields nth_append Let_def)

lemma run_InplaceBinary:
  assumes "valid (InplaceBinary op self other) s" and "accepted (InplaceBinary op self other) s"
  shows "run (InplaceBinary op self other) s =
     (Inr (call_result (InplaceBinary op self other) s), call_post (InplaceBinary op self other) s)"
  using assms
  by (cases op; cases other)
     (simp_all add: method_defs helper_defs described_defs kernel_defs submit_ok
        submitted_fields Let_def)

lemma run_Reflected:
  assumes "valid (Reflected op self x) s"
  shows "run (Reflected op self x) s =
     (Inr (call_result (Reflected op self x) s), call_post (Reflected op self x) s)"
  using assms
  by (cases op)
     (simp_all add: method_defs helper_defs described_defs kernel_defs submit_ok
        submitted_frame submitted_fields nth_append Let_def)

lemma run_MinMax:
  assumes "valid (MinMax m self other inplace) s" and "accepted (MinMax m self other inplace) s"
  shows "run (MinMax m self other inplace) s =
     (Inr (call_result (MinMax m self other inplace) s), call_post (MinMax m self other inplace) s)"
  using assms
  by (cases m; cases other; cases inplace)
     (simp_all add: method_defs helper_defs described_defs kernel_defs submit_ok
        submitted_frame submitted_fields nth_append Let_def)

lemma run_Unary:
  assumes "valid (Unary u self inplace) s"
  shows "run (Unary u self inplace) s =
     (Inr (call_result (Unary u self inplace) s), call_post (Unary u self inplace) s)"
  using assms
  by (cases u; cases inplace)
     (simp_all add: unary_defs helper_defs described_defs kernel_defs submit_ok
        submitted_frame submitted_fields nth_append Let_def)

lemma run_Clamp:
  assumes "valid (Clamp self mn mx inplace) s" and "accepted (Clamp self mn mx inplace) s"
  shows "run (Clamp self mn mx inplace) s =
     (Inr (call_result (Clamp self mn mx inplace) s), call_post (Clamp self mn mx inplace) s)"
  using assms
  by (cases mn; cases mx; cases inplace)
     (simp_all add: array_clamp_def helper_defs described_defs kernel_defs submit_ok
        submitted_frame submitted_fields nth_append Let_def)

lemma run_MatMul:
  assumes "valid (MatMul self other) s" and "accepted (MatMul self other) s"
  shows "run (MatMul self other) s =
     (Inr (call_result (MatMul self other) s), call_post (MatMul self other) s)"
  using assms
  by (cases "shape (heap s ! self)"; cases "shape (heap s ! other)")
     (simp_all add: array_matmul_def helper_defs described_defs kernel_defs submit_ok
        submitted_frame submitted_fields nth_append Let_def matmul_ok_def matmul_shape_def
        matmul_rows_def matmul_columns_def)

lemma run_ok:
  assumes "valid c s" and "accepted c s"
  shows "run c s = (Inr (call_result c s), call_post c s)"
proof (cases c)
  case (Reflected op self x)
  with assms(1) show ?thesis by (simp only: run_Reflected)
next
  case (Unary u self inplace)
  with assms(1) show ?thesis by (simp only: run_Unary)
qed (use assms in \<open>simp_all only: run_Binary run_InplaceBinary run_MinMax run_Clamp run_MatMul\<close>)

section \<open>The state after a successful call\<close>

lemma operands_not_Nil: "call_buffers c s \<noteq> []"
  by (simp add: call_buffers_def operands_def)

lemma call_post_trace:
  "trace (call_post c s) =
     trace s @
     (case cache s (call_key c s) of None \<Rightarrow> [Compile (call_key c s) (next_op s)] | Some h \<Rightarrow> []) @
     [call_submission c s]"
  by (simp add: call_post_def Let_def submitted_trace operands_not_Nil createOp_trace
      call_key_def call_submission_def split: option.splits)

lemma call_post_last: "last (trace (call_post c s)) = call_submission c s"
  by (simp add: call_post_trace)

lemma call_post_submissions: "submissions (call_post c s) = submissions s @ [call_submission c s]"
  by (simp add: submissions_def call_post_trace call_submission_def split: option.splits)

lemma call_post_heap:
  "heap (call_post c s) =
     (if is_inplace c
      then (heap s)[self_of c := (arr s (self_of c))\<lparr>job := Some (next_job s)\<rparr>]
      else heap s @ [\<lparr>shape = result_shape c s, buffer = result_buffer c s,
                      job = Some (next_job s)\<rparr>])"
  by (simp add: call_post_def Let_def)

lemma issued_ok:
  assumes "valid c s" and "accepted c s"
  shows "issued c s = call_submission c s"
  by (simp add: issued_def run_ok [OF assms] call_post_last)

text \<open>A call that is not accepted raises, and leaves the state as it was.\<close>

lemma run_rejected:
  assumes "\<not> accepted c s"
  shows "\<exists>e. run c s = (Inl e, s)"
proof (cases c)
  case (Binary op self other)
  with assms show ?thesis
    by (cases op; cases other)
       (simp_all add: accepted_def operands_def method_defs opVec3_def bindE_def check_shape_def)
next
  case (InplaceBinary op self other)
  with assms show ?thesis
    by (cases op; cases other)
       (simp_all add: accepted_def operands_def method_defs opVec2_def return_self_def
          bindE_def check_shape_def)
next
  case (Reflected op self x)
  with assms show ?thesis
    by (simp add: accepted_def operands_def)
next
  case (MinMax m self other inplace)
  with assms show ?thesis
    by (cases m; cases other; cases inplace)
       (simp_all add: accepted_def operands_def method_defs opVec3_def opVec2_def bindE_def
          check_shape_def)
next
  case (Unary u self inplace)
  with assms show ?thesis
    by (simp add: accepted_def operands_def)
next
  case (MatMul self other)
  with assms show ?thesis
    by (auto simp: accepted_def matmul_ok_def array_matmul_def Let_def arr_def)
next
  case (Clamp self mn mx inplace)
  with assms show ?thesis
    by (cases mn; cases mx)
       (auto simp: accepted_def operands_def array_clamp_def check_bound_def check_shape_def
          bindE_def)
qed

section \<open>Shape validation of the binary elementwise operations\<close>

lemma opVec3_mismatch:
  "shape (arr s self) \<noteq> shape (arr s other) \<Longrightarrow> opVec3 spv self other s = (Inl ValueError, s)"
  by (simp add: opVec3_def bindE_def check_shape_def)

lemma opVec2_mismatch:
  "shape (arr s self) \<noteq> shape (arr s other) \<Longrightarrow>
     opVec2 spv self (Some other) s = (Inl ValueError, s)"
  by (simp add: opVec2_def bindE_def check_shape_def)

text \<open>
  C1.  Every binary elementwise operation on two Arrays (\<open>+\<close>, \<open>-\<close>, \<open>*\<close>, \<open>/\<close>, \<open>**\<close>,
  \<open>max\<close>, \<open>min\<close>, and their in-place forms) whose operands differ in shape raises
  ValueError, and the state it leaves is the state it was called in: nothing was
  compiled or submitted, no Array was allocated, and no buffer, shape or pending
  job changed.
\<close>

theorem binary_shape_mismatch_raises:
  assumes "shape (arr s self) \<noteq> shape (arr s other)"
  shows "run (Binary op self (Arr other)) s = (Inl ValueError, s)
       \<and> run (InplaceBinary op self (Arr other)) s = (Inl ValueError, s)
       \<and> run (MinMax m self (Arr other) inplace) s = (Inl ValueError, s)"
proof (intro conjI)
  show "run (Binary op self (Arr other)) s = (Inl ValueError, s)"
    using assms by (cases op) (simp_all add: method_defs opVec3_mismatch)
  show "run (InplaceBinary op self (Arr other)) s = (Inl ValueError, s)"
    using assms by (cases op) (simp_all add: method_defs return_self_def opVec2_mismatch bindE_def)
  show "run (MinMax m self (Arr other) inplace) s = (Inl ValueError, s)"
    using assms by (cases m) (simp_all add: method_defs opVec3_mismatch opVec2_mismatch)
qed

theorem binary_shape_mismatch_raises_witness:
  "shape (arr example 2) \<noteq> shape (arr example 3)
   \<and> run (Binary Add 2 (Arr 3)) example = (Inl ValueError, example)
   \<and> run (InplaceBinary Add 2 (Arr 3)) example = (Inl ValueError, example)
   \<and> run (MinMax Maximum 2 (Arr 3) True) example = (Inl ValueError, example)"
proof -
  have h: "shape (arr example 2) \<noteq> shape (arr example 3)"
    by (simp add: example_def arr_def)
  show ?thesis
    using h binary_shape_mismatch_raises [OF h, of Add Maximum True] by simp
qed

section \<open>The compiled-operation cache\<close>

lemma createOp_hit: "cache s k = Some h \<Longrightarrow> createOp k s = (h, s)"
  by (simp add: createOp_def)

lemma createOp_stored: "cache (snd (createOp k s)) k = Some (fst (createOp k s))"
  by (simp add: createOp_def split: option.splits)

lemma createOp_keeps: "cache s k = Some h \<Longrightarrow> cache (snd (createOp k' s)) k = Some h"
  by (auto simp: createOp_def split: option.splits)

lemma do_submit_stored:
  "cache (do_submit a s) (signature_of a) = Some (fst (createOp (signature_of a) s))"
  by (cases a rule: signature_of.cases)
     (simp add: submit_def createOp_def split: option.splits)

lemma do_submit_keeps: "cache s k = Some h \<Longrightarrow> cache (do_submit a s) k = Some h"
  by (cases a rule: signature_of.cases)
     (auto simp: submit_def createOp_def split: option.splits)

lemma do_submits_keeps: "cache s k = Some h \<Longrightarrow> cache (do_submits as s) k = Some h"
  by (induction as arbitrary: s) (simp_all add: do_submit_keeps)

lemma do_submit_trace:
  "buffers_of a \<noteq> [] \<Longrightarrow>
     \<exists>e. trace (do_submit a s) =
       trace s @
       (case cache s (signature_of a) of
          None \<Rightarrow> [Compile (signature_of a) (next_op s)] | Some h \<Rightarrow> []) @ [e]
       \<and> is_Submit e \<and> sub_op e = fst (createOp (signature_of a) s)"
  by (cases a rule: signature_of.cases)
     (simp add: submitted_trace [unfolded submitted_def] createOp_trace split: option.splits)

text \<open>
  C2.  When two calls of \<open>_submit\<close> have the same kernel, number of buffers,
  parameters and workgroup dimensions, the second gets the operation handle the
  first one got and compiles nothing, whatever was submitted in between.  A
  submission compiles exactly when its signature is not yet in the cache.  Two
  submissions that differ in the element count only get two handles: on a new
  device context, \<open>submit3\<close> followed by \<open>submit4\<close> leaves two cache entries.
\<close>

theorem cache_returns_same_handle:
  assumes "signature_of a = signature_of b"
    and "buffers_of a \<noteq> []" and "buffers_of b \<noteq> []"
  shows "sub_op (last (trace (do_submit b (do_submits between (do_submit a s)))))
           = sub_op (last (trace (do_submit a s)))
       \<and> compilations (do_submit b (do_submits between (do_submit a s)))
           = compilations (do_submits between (do_submit a s))
       \<and> compilations (do_submit a s) =
           compilations s @
           (case cache s (signature_of a) of
              None \<Rightarrow> [Compile (signature_of a) (next_op s)] | Some h \<Rightarrow> [])
       \<and> cache (do_submits [submit3, submit4] fresh) (signature_of submit3) = Some 0
       \<and> cache (do_submits [submit3, submit4] fresh) (signature_of submit4) = Some 1
       \<and> compilations (do_submits [submit3, submit4] fresh)
           = [Compile (signature_of submit3) 0, Compile (signature_of submit4) 1]"
proof -
  let ?h = "fst (createOp (signature_of a) s)"
  let ?s2 = "do_submits between (do_submit a s)"
  have "cache (do_submit a s) (signature_of a) = Some ?h"
    by (rule do_submit_stored)
  then have "cache ?s2 (signature_of a) = Some ?h"
    by (rule do_submits_keeps)
  then have c2: "cache ?s2 (signature_of b) = Some ?h"
    by (simp only: assms(1))
  obtain e1 where e1: "trace (do_submit a s) =
       trace s @
       (case cache s (signature_of a) of
          None \<Rightarrow> [Compile (signature_of a) (next_op s)] | Some h \<Rightarrow> []) @ [e1]"
      "is_Submit e1" "sub_op e1 = ?h"
    using do_submit_trace [OF assms(2)] by blast
  obtain e2 where e2: "trace (do_submit b ?s2) =
       trace ?s2 @
       (case cache ?s2 (signature_of b) of
          None \<Rightarrow> [Compile (signature_of b) (next_op ?s2)] | Some h \<Rightarrow> []) @ [e2]"
      "is_Submit e2" "sub_op e2 = fst (createOp (signature_of b) ?s2)"
    using do_submit_trace [OF assms(3)] by blast
  have h2: "fst (createOp (signature_of b) ?s2) = ?h"
    by (simp add: createOp_hit [OF c2])
  have 1: "sub_op (last (trace (do_submit b ?s2))) = sub_op (last (trace (do_submit a s)))"
    by (simp add: e1 e2 h2)
  have 2: "compilations (do_submit b ?s2) = compilations ?s2"
    using e2(2) by (cases e2) (simp_all add: compilations_def e2(1) c2)
  have 3: "compilations (do_submit a s) =
      compilations s @
      (case cache s (signature_of a) of
         None \<Rightarrow> [Compile (signature_of a) (next_op s)] | Some h \<Rightarrow> [])"
    using e1(2) by (cases e1) (simp_all add: compilations_def e1(1) split: option.splits)
  have 4: "cache (do_submits [submit3, submit4] fresh) (signature_of submit3) = Some 0"
    "cache (do_submits [submit3, submit4] fresh) (signature_of submit4) = Some 1"
    "compilations (do_submits [submit3, submit4] fresh)
       = [Compile (signature_of submit3) 0, Compile (signature_of submit4) 1]"
    by (simp_all add: submit3_def submit4_def fresh_def submit_def createOp_def
        compilations_def)
  show ?thesis
    using 1 2 3 4 by blast
qed

theorem cache_returns_same_handle_witness:
  "signature_of submit3 = signature_of (k_iabs, (64, 1, 1), [Buffer 7 3], DataShape 3 1 1, VectorParams 3, [5])
   \<and> buffers_of submit3 \<noteq> []
   \<and> sub_op (last (trace (do_submit (k_iabs, (64, 1, 1), [Buffer 7 3], DataShape 3 1 1, VectorParams 3, [5])
        (do_submits [submit4] (do_submit submit3 fresh)))))
       = sub_op (last (trace (do_submit submit3 fresh)))
   \<and> compilations (do_submit (k_iabs, (64, 1, 1), [Buffer 7 3], DataShape 3 1 1, VectorParams 3, [5])
        (do_submits [submit4] (do_submit submit3 fresh)))
       = compilations (do_submits [submit4] (do_submit submit3 fresh))
   \<and> compilations (do_submit submit3 fresh) = [Compile (signature_of submit3) 0]"
proof -
  have s: "signature_of submit3 =
      signature_of (k_iabs, (64, 1, 1), [Buffer 7 3], DataShape 3 1 1, VectorParams 3, [5])"
    by (simp add: submit3_def)
  have b: "buffers_of submit3 \<noteq> []"
    "buffers_of (k_iabs, (64, 1, 1), [Buffer 7 3], DataShape 3 1 1, VectorParams 3, [5]) \<noteq> []"
    by (simp_all add: submit3_def)
  have f: "compilations fresh = []" "cache fresh (signature_of submit3) = None"
    "next_op fresh = 0"
    by (simp_all add: fresh_def compilations_def)
  note t = cache_returns_same_handle [OF s b, of "[submit4]" fresh]
  have 1: "compilations (do_submit submit3 fresh) = [Compile (signature_of submit3) 0]"
    using t [THEN conjunct2, THEN conjunct2, THEN conjunct1] unfolding f by simp
  show ?thesis
    using s b(1) t 1 by blast
qed

section \<open>Dependencies of a submission\<close>

lemma set_semaphores_of:
  "set (semaphores_of rs s) = {j. \<exists>r \<in> set rs. job (arr s r) = Some j}"
  by (induction rs) (auto simp: semaphores_of_def split: option.splits)

text \<open>
  C3.  A successful call issues exactly one submission.  The jobs it is told to wait
  for are exactly the jobs pending on its operand Arrays when it is called.  An
  in-place call therefore waits for the job that was pending on \<open>self\<close>, and after
  it the pending job of \<open>self\<close> is the job of this submission.  (The result Array
  of an out-of-place call is in the list the code filters, but it is new and has
  no pending job.)
\<close>

theorem submission_waits_for_pending_jobs:
  assumes "valid c s" and "accepted c s"
  shows "submissions (snd (run c s)) = submissions s @ [issued c s]
       \<and> is_Submit (issued c s)
       \<and> set (sub_semaphores (issued c s)) = {j. \<exists>r \<in> set (operands c). job (arr s r) = Some j}
       \<and> (is_inplace c \<longrightarrow>
            (\<forall>j. job (arr s (self_of c)) = Some j \<longrightarrow> j \<in> set (sub_semaphores (issued c s)))
          \<and> job (arr (snd (run c s)) (self_of c)) = Some (sub_job (issued c s)))"
proof -
  have i: "issued c s = call_submission c s"
    by (rule issued_ok [OF assms])
  have self: "self_of c < length (heap s)"
    using assms(1) by (simp add: valid_def operands_def)
  have "submissions (snd (run c s)) = submissions s @ [issued c s]"
    by (simp add: run_ok [OF assms] call_post_submissions i)
  moreover have "is_Submit (issued c s)"
    by (simp add: i call_submission_def)
  moreover have "set (sub_semaphores (issued c s)) =
      {j. \<exists>r \<in> set (operands c). job (arr s r) = Some j}"
    by (simp add: i call_submission_def set_semaphores_of)
  moreover have "\<forall>j. job (arr s (self_of c)) = Some j \<longrightarrow> j \<in> set (sub_semaphores (issued c s))"
    by (simp add: i call_submission_def set_semaphores_of operands_def)
  moreover have "is_inplace c \<Longrightarrow>
      job (arr (snd (run c s)) (self_of c)) = Some (sub_job (issued c s))"
    using self by (simp add: run_ok [OF assms] call_post_heap i call_submission_def arr_def)
  ultimately show ?thesis by blast
qed

theorem submission_waits_for_pending_jobs_witness:
  "valid (InplaceBinary Add 0 (Arr 1)) example \<and> accepted (InplaceBinary Add 0 (Arr 1)) example
   \<and> is_inplace (InplaceBinary Add 0 (Arr 1))
   \<and> job (arr example (self_of (InplaceBinary Add 0 (Arr 1)))) = Some 0
   \<and> set (sub_semaphores (issued (InplaceBinary Add 0 (Arr 1)) example)) = {0}
   \<and> 0 \<in> set (sub_semaphores (issued (InplaceBinary Add 0 (Arr 1)) example))
   \<and> job (arr (snd (run (InplaceBinary Add 0 (Arr 1)) example)) 0)
       = Some (sub_job (issued (InplaceBinary Add 0 (Arr 1)) example))"
proof -
  have v: "valid (InplaceBinary Add 0 (Arr 1)) example"
    by (simp add: valid_def operands_def example_def)
  have a: "accepted (InplaceBinary Add 0 (Arr 1)) example"
    by (simp add: accepted_def operands_def example_def arr_def)
  have j: "job (arr example 0) = Some 0" "job (arr example 1) = None"
    by (simp_all add: example_def arr_def)
  have e: "{j. \<exists>r \<in> set (operands (InplaceBinary Add 0 (Arr 1))). job (arr example r) = Some j} = {0}"
    using j by (auto simp: operands_def)
  show ?thesis
    using v a j e submission_waits_for_pending_jobs [OF v a] by simp
qed

section \<open>Matrix multiply\<close>

lemma matmul_rejected:
  assumes "shape (arr s self) \<noteq> []" and "shape (arr s other) \<noteq> []"
    and "3 < length (shape (arr s self)) \<or> 3 < length (shape (arr s other))
       \<or> last (shape (arr s self)) \<noteq> hd (shape (arr s other))"
  shows "array_matmul self other s = (Inl ValueError, s)"
  using assms by (auto simp: array_matmul_def Let_def)

lemma matmul_accepted:
  assumes "shape (arr s self) \<noteq> []" and "shape (arr s other) \<noteq> []"
    and "\<not> (3 < length (shape (arr s self)) \<or> 3 < length (shape (arr s other))
       \<or> last (shape (arr s self)) \<noteq> hd (shape (arr s other)))"
  shows "fst (array_matmul self other s) = Inr (Some (length (heap s)))"
    and "heap (snd (array_matmul self other s)) =
       heap s @
         [\<lparr>shape = matmul_shape (shape (arr s self)) (shape (arr s other)),
           buffer = Buffer (next_buf s)
             (prod_list (matmul_shape (shape (arr s self)) (shape (arr s other)))),
           job = Some (next_job s)\<rparr>]"
    and "sub_params (last (trace (snd (array_matmul self other s)))) =
       MatMulParams (matmul_rows (shape (arr s self))) (last (shape (arr s self)))
         (matmul_columns (shape (arr s other)))"
  using assms
  by (cases "shape (heap s ! self)"; cases "shape (heap s ! other)";
      simp add: array_matmul_def bindE_def Array_init_def set_job_def arr_def submit_ok
        submitted_trace submitted_fields Let_def matmul_shape_def matmul_rows_def
        matmul_columns_def)+

text \<open>
  C4, as the code has it.  For operands of rank at least one: if the rank of either
  exceeds three, or the last dimension of \<open>a\<close> differs from the first dimension of
  \<open>b\<close>, \<open>a @ b\<close> raises ValueError and the state is unchanged, so nothing was
  submitted.  Otherwise it returns a new Array of shape \<open>a.shape[:-1] + b.shape[1:]\<close>,
  or \<open>(1,)\<close> when that is empty, and its submission carries the row count (one when
  \<open>a\<close> has rank one), the contraction length (the shared dimension) and the column
  count (one when \<open>b\<close> has rank one).
\<close>

theorem matmul_shape_rule:
  assumes "shape (arr s self) \<noteq> []" and "shape (arr s other) \<noteq> []"
  shows "if 3 < length (shape (arr s self)) \<or> 3 < length (shape (arr s other))
            \<or> last (shape (arr s self)) \<noteq> hd (shape (arr s other))
         then run (MatMul self other) s = (Inl ValueError, s)
         else fst (run (MatMul self other) s) = Inr (Some (length (heap s)))
            \<and> shape (arr (snd (run (MatMul self other) s)) (length (heap s))) =
                (if butlast (shape (arr s self)) @ tl (shape (arr s other)) = [] then [1]
                 else butlast (shape (arr s self)) @ tl (shape (arr s other)))
            \<and> sub_params (issued (MatMul self other) s) =
                MatMulParams
                  (if length (shape (arr s self)) = 1 then 1 else hd (shape (arr s self)))
                  (last (shape (arr s self)))
                  (if length (shape (arr s other)) = 1 then 1 else shape (arr s other) ! 1)
            \<and> last (shape (arr s self)) = hd (shape (arr s other))"
proof (cases "3 < length (shape (arr s self)) \<or> 3 < length (shape (arr s other))
            \<or> last (shape (arr s self)) \<noteq> hd (shape (arr s other))")
  case True
  then show ?thesis
    using matmul_rejected [OF assms] by simp
next
  case False
  note m = matmul_accepted [OF assms False]
  have 1: "fst (run (MatMul self other) s) = Inr (Some (length (heap s)))"
    by (simp add: m(1))
  have 2: "shape (arr (snd (run (MatMul self other) s)) (length (heap s))) =
      matmul_shape (shape (arr s self)) (shape (arr s other))"
    by (simp add: m(2) arr_def)
  have 3: "sub_params (issued (MatMul self other) s) =
      MatMulParams (matmul_rows (shape (arr s self))) (last (shape (arr s self)))
        (matmul_columns (shape (arr s other)))"
    by (simp add: issued_def m(3))
  show ?thesis
    using False 1 2 3 by (simp add: matmul_shape_def matmul_rows_def matmul_columns_def)
qed

theorem matmul_shape_rule_witness:
  "shape (arr example 2) \<noteq> [] \<and> shape (arr example 3) \<noteq> []
   \<and> fst (run (MatMul 2 3) example) = Inr (Some 4)
   \<and> shape (arr (snd (run (MatMul 2 3) example)) 4) = [2, 4]
   \<and> sub_params (issued (MatMul 2 3) example) = MatMulParams 2 3 4
   \<and> run (MatMul 3 2) example = (Inl ValueError, example)
   \<and> fst (run (MatMul 0 1) example) = Inr (Some 4)
   \<and> shape (arr (snd (run (MatMul 0 1) example)) 4) = [1]
   \<and> sub_params (issued (MatMul 0 1) example) = MatMulParams 1 3 1"
proof -
  have s: "shape (arr example 0) = [3]" "shape (arr example 1) = [3]"
    "shape (arr example 2) = [2, 3]" "shape (arr example 3) = [3, 4]"
    "length (heap example) = 4"
    by (simp_all add: example_def arr_def)
  have n: "shape (arr example 0) \<noteq> []" "shape (arr example 1) \<noteq> []"
    "shape (arr example 2) \<noteq> []" "shape (arr example 3) \<noteq> []"
    unfolding s by simp_all
  have 1: "fst (run (MatMul 2 3) example) = Inr (Some 4)
      \<and> shape (arr (snd (run (MatMul 2 3) example)) 4) = [2, 4]
      \<and> sub_params (issued (MatMul 2 3) example) = MatMulParams 2 3 4"
    using matmul_shape_rule [OF n(3) n(4)] unfolding s by simp
  have 2: "run (MatMul 3 2) example = (Inl ValueError, example)"
    using matmul_shape_rule [OF n(4) n(3)] unfolding s by simp
  have 3: "fst (run (MatMul 0 1) example) = Inr (Some 4)
      \<and> shape (arr (snd (run (MatMul 0 1) example)) 4) = [1]
      \<and> sub_params (issued (MatMul 0 1) example) = MatMulParams 1 3 1"
    using matmul_shape_rule [OF n(1) n(2)] unfolding s by simp
  show ?thesis
    using n 1 2 3 by blast
qed

text \<open>
  C4 without the restriction to rank at least one fails.  For a zero-dimensional \<open>a\<close>
  and a vector \<open>b\<close> no rank exceeds three; \<open>a @ b\<close> raises IndexError at
  \<open>self.shape[-1]\<close>: it neither raises the shape error nor returns an Array.
\<close>

theorem matmul_rank0_counterexample:
  "length (shape (arr rank0_example 0)) \<le> 3 \<and> length (shape (arr rank0_example 1)) \<le> 3
   \<and> run (MatMul 0 1) rank0_example = (Inl IndexError, rank0_example)
   \<and> fst (run (MatMul 0 1) rank0_example) \<noteq> Inl ValueError
   \<and> fst (run (MatMul 0 1) rank0_example) \<noteq> Inr (Some (length (heap rank0_example)))"
  by (simp add: array_matmul_def rank0_example_def arr_def)

section \<open>Materialisation\<close>

lemma array_wait_trace:
  "trace (array_wait self s) =
     trace s @ (case job (arr s self) of Some j \<Rightarrow> [Wait j] | None \<Rightarrow> [])"
  by (simp add: array_wait_def set_job_def split: option.splits)

lemma array_wait_job:
  "self < length (heap s) \<Longrightarrow> job (arr (array_wait self s) self) = None"
  by (simp add: array_wait_def set_job_def arr_def split: option.splits)

lemma array_wait_buffer:
  "buffer (arr (array_wait self s) self) = buffer (arr s self)"
  by (cases "self < length (heap s)")
     (simp_all add: array_wait_def set_job_def arr_def list_update_beyond not_less
        split: option.splits)

lemma materialize_trace:
  "trace (materialize m self s) =
     trace s @ (case job (arr s self) of Some j \<Rightarrow> [Wait j] | None \<Rightarrow> []) @
     reads_of m (buffer (arr s self))"
  by (cases m)
     (simp_all add: array_getitem_def array_str_def array_array_def Let_def array_wait_trace
        array_wait_buffer)

lemma materialize_heap: "heap (materialize m self s) = heap (array_wait self s)"
  by (cases m) (simp_all add: array_getitem_def array_str_def array_array_def Let_def)

lemma waits_reads_of: "filter is_Wait (reads_of m b) = []"
  by (cases m) simp_all

text \<open>
  C5.  Indexing an Array, converting it with \<open>__array__\<close> and formatting it with
  \<open>__str__\<close> first wait for the pending job, if there is one, and only then touch the
  host view; afterwards the Array has no pending job.  Materialising the Array
  once more, in any of the three ways, waits for nothing.
\<close>

theorem materialization_waits_once:
  assumes "self < length (heap s)"
  shows "trace (materialize m self s) =
           trace s @ (case job (arr s self) of Some j \<Rightarrow> [Wait j] | None \<Rightarrow> []) @
           reads_of m (buffer (arr s self))
       \<and> job (arr (materialize m self s) self) = None
       \<and> waits (materialize m' self (materialize m self s)) = waits (materialize m self s)"
proof -
  have j: "job (arr (materialize m self s) self) = None"
    using assms by (simp add: arr_def materialize_heap array_wait_job [unfolded arr_def])
  have "waits (materialize m' self (materialize m self s)) = waits (materialize m self s)"
    by (simp add: waits_def materialize_trace [of m'] j waits_reads_of)
  with j show ?thesis
    by (simp add: materialize_trace)
qed

theorem materialization_waits_once_witness:
  "0 < length (heap example) \<and> job (arr example 0) = Some 0
   \<and> trace (materialize (GetItem 1) 0 example)
       = trace example @ [Wait 0, HostRead (Buffer 0 3) (Some 1)]
   \<and> job (arr (materialize (GetItem 1) 0 example) 0) = None
   \<and> waits (materialize ToStr 0 (materialize (GetItem 1) 0 example))
       = waits (materialize (GetItem 1) 0 example)"
proof -
  have l: "0 < length (heap example)"
    by (simp add: example_def)
  have e: "job (arr example 0) = Some 0" "buffer (arr example 0) = Buffer 0 3"
    by (simp_all add: example_def arr_def)
  show ?thesis
    using l e materialization_waits_once [OF l, of "GetItem 1" ToStr] by simp
qed

section \<open>Kernel selection\<close>

lemma issued_spv:
  assumes "valid c s" and "accepted c s"
  shows "sub_spv (issued c s) = kernel_file c"
  by (simp add: issued_ok [OF assms] call_submission_def)

text \<open>
  C6.  The kernel a successful call submits is named by the convention: the
  operation's base name for the out-of-place array-array form, \<open>i\<close> in front of it
  for the in-place form, \<open>_scalar\<close> after it when the other operand is a scalar,
  and \<open>r\<close> in front of the scalar form for the reflected call of \<open>-\<close>, \<open>/\<close> and \<open>**\<close>.
  The reflected calls of \<open>+\<close> and \<open>*\<close> submit the kernel of the array-scalar call.
\<close>

theorem kernel_follows_naming_convention:
  assumes "valid c s" and "accepted c s"
  shows "sub_spv (issued c s) = path_join shader_dir (kernel_name c @ ''.spv'')
       \<and> (\<forall>op self x. c = Reflected op self x \<longrightarrow>
            sub_spv (issued c s) =
              (if op \<in> {Sub, TrueDiv, Power}
               then path_join shader_dir (''r'' @ operator_name op @ ''_scalar.spv'')
               else sub_spv (issued (Binary op self (Scalar x)) s)))"
proof (intro conjI allI impI)
  show "sub_spv (issued c s) = path_join shader_dir (kernel_name c @ ''.spv'')"
    by (simp add: issued_spv [OF assms] kernel_file_def)
next
  fix op self x
  assume c: "c = Reflected op self x"
  have v: "valid (Binary op self (Scalar x)) s"
    using assms(1) by (simp add: c valid_def operands_def)
  have a: "accepted (Binary op self (Scalar x)) s"
    by (simp add: accepted_def operands_def)
  have r: "sub_spv (issued (Reflected op self x) s) = kernel_file (Reflected op self x)"
    using issued_spv [OF assms] by (simp add: c)
  have b: "sub_spv (issued (Binary op self (Scalar x)) s) = kernel_file (Binary op self (Scalar x))"
    by (rule issued_spv [OF v a])
  show "sub_spv (issued c s) =
      (if op \<in> {Sub, TrueDiv, Power}
       then path_join shader_dir (''r'' @ operator_name op @ ''_scalar.spv'')
       else sub_spv (issued (Binary op self (Scalar x)) s))"
    unfolding c r b by (cases op) (simp_all add: kernel_file_def)
qed

theorem kernel_follows_naming_convention_witness:
  "valid (Reflected Sub 1 2) example \<and> accepted (Reflected Sub 1 2) example
   \<and> sub_spv (issued (Reflected Sub 1 2) example) = ''shader/rsub_scalar.spv''
   \<and> valid (Reflected Add 1 2) example \<and> accepted (Reflected Add 1 2) example
   \<and> sub_spv (issued (Reflected Add 1 2) example) = ''shader/add_scalar.spv''
   \<and> sub_spv (issued (Reflected Add 1 2) example)
       = sub_spv (issued (Binary Add 1 (Scalar 2)) example)
   \<and> valid (InplaceBinary Mul 0 (Arr 1)) example \<and> accepted (InplaceBinary Mul 0 (Arr 1)) example
   \<and> sub_spv (issued (InplaceBinary Mul 0 (Arr 1)) example) = ''shader/imul.spv''"
proof -
  have v: "valid (Reflected Sub 1 2) example" "valid (Reflected Add 1 2) example"
    "valid (InplaceBinary Mul 0 (Arr 1)) example"
    by (simp_all add: valid_def operands_def example_def)
  have a: "accepted (Reflected Sub 1 2) example" "accepted (Reflected Add 1 2) example"
    "accepted (InplaceBinary Mul 0 (Arr 1)) example"
    by (simp_all add: accepted_def operands_def example_def arr_def)
  note t1 = kernel_follows_naming_convention [OF v(1) a(1)]
  note t2 = kernel_follows_naming_convention [OF v(2) a(2)]
  note t3 = kernel_follows_naming_convention [OF v(3) a(3)]
  have 1: "sub_spv (issued (Reflected Sub 1 2) example) = ''shader/rsub_scalar.spv''"
    using t1 by (simp add: path_join_def shader_dir_def)
  have 2: "sub_spv (issued (Reflected Add 1 2) example) = ''shader/add_scalar.spv''"
    using t2 by (simp add: path_join_def shader_dir_def)
  have 3: "sub_spv (issued (Reflected Add 1 2) example)
      = sub_spv (issued (Binary Add 1 (Scalar 2)) example)"
    using t2 [THEN conjunct2, rule_format, of Add 1 2] by simp
  have 4: "sub_spv (issued (InplaceBinary Mul 0 (Arr 1)) example) = ''shader/imul.spv''"
    using t3 by (simp add: path_join_def shader_dir_def)
  show ?thesis
    using v a 1 2 3 4 by blast
qed

section \<open>Clamp\<close>

lemma clamp_rejected:
  assumes "\<not> accepted (Clamp self mn mx inplace) s"
  shows "array_clamp self mn mx inplace s = (Inl ValueError, s)"
  using assms
  by (cases mn; cases mx)
     (auto simp: accepted_def operands_def array_clamp_def check_bound_def check_shape_def
        bindE_def)

text \<open>
  C7.  A clamp whose Array bounds all have the shape of \<open>self\<close> issues exactly one
  submission, of the kernel \<open>clamp\<close> (both bounds Arrays), \<open>clamp_sv\<close> (scalar minimum,
  Array maximum), \<open>clamp_vs\<close> (Array minimum, scalar maximum) or \<open>clamp_ss\<close> (both
  scalars), with \<open>i\<close> in front for the in-place form.  A clamp with an Array
  bound of another shape raises ValueError and leaves the state as it was:
  nothing is submitted.
\<close>

theorem clamp_selects_one_of_eight:
  assumes "valid (Clamp self mn mx inplace) s"
  shows "(accepted (Clamp self mn mx inplace) s \<longrightarrow>
            submissions (snd (run (Clamp self mn mx inplace) s))
              = submissions s @ [issued (Clamp self mn mx inplace) s]
          \<and> sub_spv (issued (Clamp self mn mx inplace) s) =
              path_join shader_dir
                ((if inplace then ''i'' else []) @ ''clamp'' @
                 (case (mn, mx) of
                    (Arr _, Arr _) \<Rightarrow> []
                  | (Scalar _, Arr _) \<Rightarrow> ''_sv''
                  | (Arr _, Scalar _) \<Rightarrow> ''_vs''
                  | (Scalar _, Scalar _) \<Rightarrow> ''_ss'') @ ''.spv''))
       \<and> (\<not> accepted (Clamp self mn mx inplace) s \<longrightarrow>
            run (Clamp self mn mx inplace) s = (Inl ValueError, s))
       \<and> accepted (Clamp self mn mx inplace) s =
            (\<forall>b \<in> set (arrays_in [mn, mx]). shape (arr s b) = shape (arr s self))"
proof (intro conjI impI)
  assume a: "accepted (Clamp self mn mx inplace) s"
  show "submissions (snd (run (Clamp self mn mx inplace) s))
      = submissions s @ [issued (Clamp self mn mx inplace) s]"
    by (simp only: run_ok [OF assms a] issued_ok [OF assms a] call_post_submissions snd_conv)
  have "sub_spv (issued (Clamp self mn mx inplace) s) = kernel_file (Clamp self mn mx inplace)"
    by (simp add: issued_ok [OF assms a] call_submission_def)
  then show "sub_spv (issued (Clamp self mn mx inplace) s) =
      path_join shader_dir
        ((if inplace then ''i'' else []) @ ''clamp'' @
         (case (mn, mx) of
            (Arr _, Arr _) \<Rightarrow> []
          | (Scalar _, Arr _) \<Rightarrow> ''_sv''
          | (Arr _, Scalar _) \<Rightarrow> ''_vs''
          | (Scalar _, Scalar _) \<Rightarrow> ''_ss'') @ ''.spv'')"
    by (cases mn; cases mx) (simp_all add: kernel_file_def inplace_prefix_def)
next
  assume "\<not> accepted (Clamp self mn mx inplace) s"
  then show "run (Clamp self mn mx inplace) s = (Inl ValueError, s)"
    by (simp add: clamp_rejected)
next
  show "accepted (Clamp self mn mx inplace) s =
      (\<forall>b \<in> set (arrays_in [mn, mx]). shape (arr s b) = shape (arr s self))"
    by (simp add: accepted_def operands_def list_all_iff)
qed

theorem clamp_selects_one_of_eight_witness:
  "valid (Clamp 0 (Scalar 0) (Arr 1) True) example
   \<and> accepted (Clamp 0 (Scalar 0) (Arr 1) True) example
   \<and> sub_spv (issued (Clamp 0 (Scalar 0) (Arr 1) True) example) = ''shader/iclamp_sv.spv''
   \<and> valid (Clamp 0 (Arr 2) (Scalar 1) False) example
   \<and> \<not> accepted (Clamp 0 (Arr 2) (Scalar 1) False) example
   \<and> run (Clamp 0 (Arr 2) (Scalar 1) False) example = (Inl ValueError, example)"
proof -
  have v: "valid (Clamp 0 (Scalar 0) (Arr 1) True) example"
    "valid (Clamp 0 (Arr 2) (Scalar 1) False) example"
    by (simp_all add: valid_def operands_def example_def)
  have a: "accepted (Clamp 0 (Scalar 0) (Arr 1) True) example"
    "\<not> accepted (Clamp 0 (Arr 2) (Scalar 1) False) example"
    by (simp_all add: accepted_def operands_def example_def arr_def)
  show ?thesis
    using v a clamp_selects_one_of_eight [OF v(1)] clamp_selects_one_of_eight [OF v(2)]
    by (simp add: path_join_def shader_dir_def)
qed

section \<open>Out-of-place calls leave their operands alone\<close>

text \<open>
  C8.  A successful out-of-place call (binary, scalar-combined, unary, matrix
  multiply or clamp) returns a new Array.  The store after the call is the store
  before it with that one Array added: it has the shape of the result, a buffer
  of its own, and the job of this call's submission pending.  Every Array that
  existed before, the operands among them, has the buffer, shape and pending job
  it had.
\<close>

theorem out_of_place_frame:
  assumes "valid c s" and "accepted c s" and "\<not> is_inplace c"
  shows "fst (run c s) = Inr (Some (length (heap s)))
       \<and> heap (snd (run c s)) =
           heap s @ [\<lparr>shape = result_shape c s,
                       buffer = Buffer (next_buf s) (prod_list (result_shape c s)),
                       job = Some (sub_job (issued c s))\<rparr>]
       \<and> (\<forall>r < length (heap s). arr (snd (run c s)) r = arr s r)"
proof -
  have r: "run c s = (Inr (call_result c s), call_post c s)"
    by (rule run_ok [OF assms(1,2)])
  have "call_result c s = Some (length (heap s))"
    using assms(3) by (cases c) (simp_all add: call_result_def)
  moreover have h: "heap (call_post c s) =
      heap s @ [\<lparr>shape = result_shape c s,
                  buffer = Buffer (next_buf s) (prod_list (result_shape c s)),
                  job = Some (sub_job (issued c s))\<rparr>]"
    using assms(3)
    by (simp add: call_post_heap issued_ok [OF assms(1,2)] call_submission_def result_buffer_def)
  moreover have "\<forall>r < length (heap s). arr (call_post c s) r = arr s r"
    by (simp add: arr_def h nth_append)
  ultimately show ?thesis
    by (simp add: r)
qed

theorem out_of_place_frame_witness:
  "valid (Binary Add 0 (Arr 1)) example \<and> accepted (Binary Add 0 (Arr 1)) example
   \<and> \<not> is_inplace (Binary Add 0 (Arr 1))
   \<and> fst (run (Binary Add 0 (Arr 1)) example) = Inr (Some 4)
   \<and> heap (snd (run (Binary Add 0 (Arr 1)) example)) =
        heap example @ [\<lparr>shape = [3], buffer = Buffer 4 3,
          job = Some (sub_job (issued (Binary Add 0 (Arr 1)) example))\<rparr>]
   \<and> arr (snd (run (Binary Add 0 (Arr 1)) example)) 0 = arr example 0
   \<and> arr (snd (run (Binary Add 0 (Arr 1)) example)) 1 = arr example 1"
proof -
  have v: "valid (Binary Add 0 (Arr 1)) example"
    by (simp add: valid_def operands_def example_def)
  have a: "accepted (Binary Add 0 (Arr 1)) example"
    by (simp add: accepted_def operands_def example_def arr_def)
  have n: "\<not> is_inplace (Binary Add 0 (Arr 1))"
    by simp
  have l: "length (heap example) = 4" "next_buf example = 4"
    "result_shape (Binary Add 0 (Arr 1)) example = [3]"
    by (simp_all add: example_def result_shape_def arr_def)
  show ?thesis
    using v a l out_of_place_frame [OF v a n] by simp
qed

section \<open>Workgroup dimensions and data shapes\<close>

lemma consistent_nth: "consistent s \<Longrightarrow> r < length (heap s) \<Longrightarrow>
    buf_size (buffer (arr s r)) = prod_list (shape (arr s r))"
  by (simp add: consistent_def arr_def list_all_length)

lemma Array_init_consistent:
  "consistent s \<Longrightarrow> Array_init data shp s = (Inr r, s') \<Longrightarrow> consistent s'"
  by (auto simp: Array_init_def consistent_def split: option.splits)

lemma list_all_update:
  "list_all P xs \<Longrightarrow> (i < length xs \<Longrightarrow> P x) \<Longrightarrow> list_all P (xs[i := x])"
  by (induction xs arbitrary: i) (auto split: nat.splits)

lemma call_post_consistent:
  assumes "consistent s"
  shows "consistent (call_post c s)"
proof (cases "is_inplace c")
  case True
  have "list_all (\<lambda>a. buf_size (buffer a) = prod_list (shape a))
      ((heap s)[self_of c := (arr s (self_of c))\<lparr>job := Some (next_job s)\<rparr>])"
    using assms
    by (intro list_all_update) (simp_all add: consistent_def arr_def list_all_length)
  with True show ?thesis
    by (simp add: consistent_def call_post_heap)
next
  case False
  with assms show ?thesis
    by (simp add: consistent_def call_post_heap result_buffer_def)
qed

text \<open>
  C9.  The submission of a successful elementwise, unary, scalar-combined or clamp
  call has workgroup dimensions \<open>(64, 1, 1)\<close> and the data shape \<open>(n, 1, 1)\<close>, where
  \<open>n\<close> is the number of elements of \<open>self\<close>; the submission of a matrix multiply has
  workgroup dimensions \<open>(1, 64, 1)\<close> and the data shape \<open>(rows, columns, 1)\<close>.
\<close>

theorem workgroup_and_data_shape:
  assumes "valid c s" and "accepted c s" and "consistent s"
  shows "(case c of
            MatMul self other \<Rightarrow>
              sub_local (issued c s) = (1, 64, 1)
            \<and> sub_shape (issued c s) =
                DataShape (matmul_rows (shape (arr s self))) (matmul_columns (shape (arr s other))) 1
          | _ \<Rightarrow>
              sub_local (issued c s) = (64, 1, 1)
            \<and> sub_shape (issued c s) = DataShape (prod_list (shape (arr s (self_of c)))) 1 1)"
proof -
  have i: "issued c s = call_submission c s"
    by (rule issued_ok [OF assms(1,2)])
  have "self_of c < length (heap s)"
    using assms(1) by (simp add: valid_def operands_def)
  then have n: "element_count c s = prod_list (shape (arr s (self_of c)))"
    by (simp add: element_count_def consistent_nth [OF assms(3)])
  show ?thesis
    using i n by (cases c) (simp_all add: call_submission_def call_local_def call_datashape_def)
qed

theorem workgroup_and_data_shape_witness:
  "valid (MatMul 2 3) example \<and> accepted (MatMul 2 3) example \<and> consistent example
   \<and> sub_local (issued (MatMul 2 3) example) = (1, 64, 1)
   \<and> sub_shape (issued (MatMul 2 3) example) = DataShape 2 4 1
   \<and> valid (Unary U_exp 2 False) example \<and> accepted (Unary U_exp 2 False) example
   \<and> sub_local (issued (Unary U_exp 2 False) example) = (64, 1, 1)
   \<and> sub_shape (issued (Unary U_exp 2 False) example) = DataShape 6 1 1"
proof -
  have v: "valid (MatMul 2 3) example" "valid (Unary U_exp 2 False) example"
    by (simp_all add: valid_def operands_def example_def)
  have a: "accepted (MatMul 2 3) example" "accepted (Unary U_exp 2 False) example"
    by (simp_all add: accepted_def matmul_ok_def operands_def example_def arr_def)
  have k: "consistent example"
    by (simp add: consistent_def example_def)
  have e: "matmul_rows (shape (arr example 2)) = 2" "matmul_columns (shape (arr example 3)) = 4"
    "prod_list (shape (arr example 2)) = 6"
    by (simp_all add: matmul_rows_def matmul_columns_def example_def arr_def)
  show ?thesis
    using v a k e workgroup_and_data_shape [OF v(1) a(1) k]
      workgroup_and_data_shape [OF v(2) a(2) k]
    by simp
qed

section \<open>Writing an element from the host\<close>

text \<open>
  C10.  \<open>__setitem__\<close> writes to the host view and does nothing else: it waits for no
  job and the store is as it was, so a job pending on the Array is still pending
  after the write.  \<open>__getitem__\<close> on an Array with a pending job waits for that job.
\<close>

theorem setitem_does_not_wait:
  "trace (array_setitem self key v s) = trace s @ [HostWrite (buffer (arr s self)) key v]
   \<and> waits (array_setitem self key v s) = waits s
   \<and> heap (array_setitem self key v s) = heap s
   \<and> job (arr (array_setitem self key v s) self) = job (arr s self)
   \<and> (\<forall>j. job (arr s self) = Some j \<longrightarrow> waits (array_getitem self key s) = waits s @ [Wait j])"
  by (simp add: array_setitem_def waits_def arr_def array_getitem_def Let_def array_wait_trace)

theorem setitem_does_not_wait_witness:
  "job (arr example 0) = Some 0
   \<and> trace (array_setitem 0 1 5 example) = trace example @ [HostWrite (Buffer 0 3) 1 5]
   \<and> waits (array_setitem 0 1 5 example) = []
   \<and> job (arr (array_setitem 0 1 5 example) 0) = Some 0
   \<and> waits (array_getitem 0 1 example) = [Wait 0]"
proof -
  have e: "job (arr example 0) = Some 0" "buffer (arr example 0) = Buffer 0 3"
    "waits example = []"
    by (simp_all add: example_def arr_def waits_def)
  show ?thesis
    using e setitem_does_not_wait [of 0 1 5 example] by simp
qed

end
